theory Spec2Isabelle
  imports Main "HOL-Library.Word"
begin

section \<open>JavaScript values used by the tracer\<close>

text \<open>
  A text line is modelled as the list of its UTF-8 bytes (\<open>string\<close>). Every pattern the
  code searches for is ASCII, and an ASCII byte never occurs inside a multi-byte UTF-8
  sequence, so \<open>startsWith\<close>, \<open>includes\<close> and the two regular expressions below find
  the same matches on the bytes as JavaScript does on UTF-16 code units.
\<close>

type_synonym byte = "8 word"

text \<open>\<^verbatim>\<open>s.startsWith(p)\<close>\<close>

definition startsWith :: "string \<Rightarrow> string \<Rightarrow> bool" where
  "startsWith s p = (take (length p) s = p)"

text \<open>\<^verbatim>\<open>s.includes(p)\<close>: \<open>p\<close> occurs at some position of \<open>s\<close>.\<close>

fun str_includes :: "string \<Rightarrow> string \<Rightarrow> bool" where
  "str_includes [] p = (p = [])"
| "str_includes (c # cs) p = (startsWith (c # cs) p \<or> str_includes cs p)"

text \<open>The regular-expression class \<^verbatim>\<open>\d\<close> (no unicode flag): the ten ASCII digits.\<close>

definition is_digit :: "char \<Rightarrow> bool" where
  "is_digit c = (c \<in> set ''0123456789'')"

text \<open>
  A value that can be thrown or reported as an error, seen through what
  \<^verbatim>\<open>formatError\<close> inspects: null/undefined, a string, an object (its \<^verbatim>\<open>message\<close>
  when truthy, its \<^verbatim>\<open>JSON.stringify\<close> rendering unless that throws, and its
  \<^verbatim>\<open>Object.prototype.toString\<close> tag), or another primitive with its \<^verbatim>\<open>String(..)\<close>
  rendering.
\<close>

datatype js_err =
    JsNullish
  | JsString string
  | JsObject "string option" "string option" string
  | JsPrimitive string

text \<open>\<^verbatim>\<open>new Error(msg)\<close>; an empty message is falsy.\<close>

definition js_Error :: "string \<Rightarrow> js_err" where
  "js_Error msg = JsObject (if msg = [] then None else Some msg) (Some ''{}'') ''[object Error]''"

text \<open>
  The \<^verbatim>\<open>TypeError\<close> the runtime throws when a property of \<^verbatim>\<open>undefined\<close> is read or
  called. The wording of its message is the engine's; only its being a non-empty message
  matters here.
\<close>

definition js_TypeError :: js_err where
  "js_TypeError = js_Error ''Cannot read properties of undefined''"

section \<open>utils/log-parser.ts\<close>

subsection \<open>parseTransactionLogs\<close>

text \<open>
  \<^verbatim>\<open>log.match(/invoke \[(\d+)\]/)\<close>, capture group 1. \<open>invoke_match_at s\<close> is the match
  anchored at the start of \<open>s\<close>: the literal \<^verbatim>\<open>invoke [\<close>, then a non-empty run of digits,
  then \<^verbatim>\<open>]\<close>. The character after the digits must be \<^verbatim>\<open>]\<close>, so the greedy \<^verbatim>\<open>\d+\<close>
  can only succeed on the maximal run. \<open>invoke_match\<close> is the leftmost match.
\<close>

definition invoke_match_at :: "string \<Rightarrow> string option" where
  "invoke_match_at s =
     (if startsWith s ''invoke [''
      then (let r = drop 8 s; ds = takeWhile is_digit r
            in if ds \<noteq> [] \<and> startsWith (dropWhile is_digit r) '']'' then Some ds else None)
      else None)"

fun invoke_match :: "string \<Rightarrow> string option" where
  "invoke_match [] = invoke_match_at []"
| "invoke_match (c # cs) =
     (case invoke_match_at (c # cs) of Some d \<Rightarrow> Some d | None \<Rightarrow> invoke_match cs)"

text \<open>The guard of the outer \<^verbatim>\<open>if\<close>: the line looks like a program invocation.\<close>

definition invoke_shaped :: "string \<Rightarrow> bool" where
  "invoke_shaped log = (startsWith log ''Program '' \<and> str_includes log '' invoke ['')"

text \<open>
  The state of the \<^verbatim>\<open>forEach\<close> loop: the object \<^verbatim>\<open>instructionLogs\<close> (a dictionary from
  numeric keys to arrays of lines) and the two local variables.
\<close>

record parse_state =
  instructionLogs :: "nat \<rightharpoonup> string list"
  currentInstruction :: nat
  inInstruction :: bool

text \<open>
  \<^verbatim>\<open>instructionLogs[k].push(log)\<close>: a \<^verbatim>\<open>TypeError\<close> when the key holds no array.
\<close>

definition push_log :: "parse_state \<Rightarrow> string \<Rightarrow> js_err + parse_state" where
  "push_log st log =
     (case instructionLogs st (currentInstruction st) of
        None \<Rightarrow> Inl js_TypeError
      | Some b \<Rightarrow> Inr (st\<lparr>instructionLogs :=
                          (instructionLogs st)(currentInstruction st \<mapsto> b @ [log])\<rparr>))"

text \<open>One iteration of the loop body.\<close>

definition parse_step :: "parse_state \<Rightarrow> string \<Rightarrow> js_err + parse_state" where
  "parse_step st log =
     (if invoke_shaped log then
        (case invoke_match log of
           Some d \<Rightarrow>
             if d = ''1'' then
               (let k = currentInstruction st + 1;
                    b = (case instructionLogs st k of None \<Rightarrow> [] | Some b \<Rightarrow> b)
                in Inr \<lparr>instructionLogs = (instructionLogs st)(k \<mapsto> b @ [log]),
                        currentInstruction = k, inInstruction = True\<rparr>)
             else if inInstruction st then push_log st log
             else Inr st
         | None \<Rightarrow> Inr st)
      else if inInstruction st then push_log st log
      else Inr st)"

fun parse_loop :: "parse_state \<Rightarrow> string list \<Rightarrow> js_err + parse_state" where
  "parse_loop st [] = Inr st"
| "parse_loop st (log # logs) =
     (case parse_step st log of Inl e \<Rightarrow> Inl e | Inr st' \<Rightarrow> parse_loop st' logs)"

definition parse_init :: parse_state where
  "parse_init = \<lparr>instructionLogs = Map.empty, currentInstruction = 0, inInstruction = False\<rparr>"

definition parseTransactionLogs :: "string list \<Rightarrow> js_err + (nat \<rightharpoonup> string list)" where
  "parseTransactionLogs logs =
     (case parse_loop parse_init logs of Inl e \<Rightarrow> Inl e | Inr st \<Rightarrow> Inr (instructionLogs st))"

text \<open>A line that opens a bucket: invocation-shaped, and the first depth it shows is 1.\<close>

definition depth1_invoke :: "string \<Rightarrow> bool" where
  "depth1_invoke log = (invoke_shaped log \<and> invoke_match log = Some ''1'')"

subsection \<open>isTransactionSuccessful\<close>




subsection \<open>extractComputeUnits\<close>






section \<open>utils/anchor-utils.ts\<close>

text \<open>
  The IDL types of \<^verbatim>\<open>utils/types.ts\<close>. A field's \<^verbatim>\<open>type\<close> is \<^verbatim>\<open>any\<close> in the source and is
  kept as its textual descriptor. An IDL is parsed JSON, so \<^verbatim>\<open>args\<close> and
  \<^verbatim>\<open>instructions\<close> may be missing, which the code tests for.
\<close>

record IdlAccountItem =
  item_name :: string
  isMut :: bool
  item_isSigner :: bool

record IdlField =
  field_name :: string
  field_type :: string

record IdlInstruction =
  idl_name :: string
  idl_accounts :: "IdlAccountItem list"
  idl_args :: "IdlField list option"

record idl =
  idl_instructions :: "IdlInstruction list option"

definition DISCRIMINATOR_SIZE :: nat where
  "DISCRIMINATOR_SIZE = 8"

text \<open>\<^verbatim>\<open>Buffer.from(s, 'utf8')\<close>\<close>

definition utf8_bytes :: "string \<Rightarrow> byte list" where
  "utf8_bytes s = map of_char s"

text \<open>
  The loop of \<^verbatim>\<open>deriveInstructionDiscriminator\<close>:
  \<^verbatim>\<open>for (let i = 0; i < nameBytes.length && i < 8; i++) placeholder[i] = nameBytes[i]\<close>.
\<close>

function discriminator_loop :: "nat \<Rightarrow> byte list \<Rightarrow> byte list \<Rightarrow> byte list" where
  "discriminator_loop i nameBytes placeholder =
     (if i < length nameBytes \<and> i < 8
      then discriminator_loop (i + 1) nameBytes (placeholder[i := nameBytes ! i])
      else placeholder)"
  by pat_completeness auto
termination
  by (relation "measure (\<lambda>(i, nameBytes, placeholder). 8 - i)") auto

declare discriminator_loop.simps [simp del]

text \<open>\<^verbatim>\<open>Buffer.alloc(8)\<close> is eight zero bytes.\<close>

definition deriveInstructionDiscriminator :: "string \<Rightarrow> byte list" where
  "deriveInstructionDiscriminator ixName =
     discriminator_loop 0 (utf8_bytes ixName) (replicate 8 0)"

text \<open>
  The \<^verbatim>\<open>for .. of\<close> loop of \<^verbatim>\<open>findInstructionByDiscriminator\<close>;
  \<^verbatim>\<open>Buffer.compare(a, b) === 0\<close> holds exactly when the two buffers have the same bytes.
\<close>

fun find_ix :: "IdlInstruction list \<Rightarrow> byte list \<Rightarrow> IdlInstruction option" where
  "find_ix [] discriminator = None"
| "find_ix (ix # ixs) discriminator =
     (if discriminator = deriveInstructionDiscriminator (idl_name ix) then Some ix
      else find_ix ixs discriminator)"

definition findInstructionByDiscriminator :: "idl \<Rightarrow> byte list \<Rightarrow> IdlInstruction option" where
  "findInstructionByDiscriminator i discriminator =
     (case idl_instructions i of
        None \<Rightarrow> None
      | Some ixs \<Rightarrow> find_ix ixs discriminator)"

text \<open>\<^verbatim>\<open>data.toString('hex')\<close>: two lower-case hexadecimal digits for each byte.\<close>

definition hex_digit :: "nat \<Rightarrow> char" where
  "hex_digit n = ''0123456789abcdef'' ! (n mod 16)"

definition hex_of_byte :: "byte \<Rightarrow> string" where
  "hex_of_byte b = [hex_digit (unat b div 16), hex_digit (unat b mod 16)]"

definition toHex :: "byte list \<Rightarrow> string" where
  "toHex bs = concat (map hex_of_byte bs)"

text \<open>
  The two shapes \<^verbatim>\<open>decodeAnchorArgs\<close> returns: the empty object, or an object whose only
  entry is \<^verbatim>\<open>rawData\<close>.
\<close>

datatype anchor_args = NoArgs | RawData string

definition decodeAnchorArgs :: "byte list \<Rightarrow> IdlInstruction \<Rightarrow> anchor_args" where
  "decodeAnchorArgs data ix =
     (case idl_args ix of
        None \<Rightarrow> NoArgs
      | Some as \<Rightarrow> if length as = 0 then NoArgs else RawData (toHex data))"

text \<open>
  A compiled instruction: the index of its program among the account keys, the indices
  of its accounts, and its payload. On this shape \<^verbatim>\<open>'data' in instruction\<close> and
  \<^verbatim>\<open>'accounts' in instruction\<close> hold and every account reference is a number.

  The parameter \<^verbatim>\<open>instruction\<close> is of type \<^verbatim>\<open>any\<close>. The payload is a \<^verbatim>\<open>Buffer\<close>, as the
  parameter types of \<^verbatim>\<open>findInstructionByDiscriminator\<close> and \<^verbatim>\<open>decodeAnchorArgs\<close>
  declare, or a text: the instructions of a legacy message that the RPC client returns
  carry their payload as base-58 text.
\<close>

type_synonym pubkey = string

datatype payload = BufferData "byte list" | Base58Text string

record instruction =
  programIdIndex :: nat
  ix_accounts :: "nat list"
  ix_data :: payload

text \<open>\<^verbatim>\<open>xs[i]\<close> on an array: \<^verbatim>\<open>undefined\<close> out of range.\<close>

definition js_index :: "'a list \<Rightarrow> nat \<Rightarrow> 'a option" where
  "js_index xs i = (if i < length xs then Some (xs ! i) else None)"

text \<open>
  The account list \<^verbatim>\<open>decodeAnchorInstruction\<close> resolves: \<^verbatim>\<open>accountKeys[idx]\<close> for each
  index; the filter drops \<^verbatim>\<open>null\<close> only, so an \<^verbatim>\<open>undefined\<close> entry stays. The list
  is computed and then not returned.
\<close>

definition resolve_accounts :: "pubkey list \<Rightarrow> nat list \<Rightarrow> pubkey option list" where
  "resolve_accounts accountKeys accountIndices = map (js_index accountKeys) accountIndices"

record decoded_instruction =
  dec_name :: string
  dec_ix :: IdlInstruction
  dec_args :: anchor_args

text \<open>
  \<^verbatim>\<open>decodeAnchorInstruction\<close>. Its body is one \<^verbatim>\<open>try\<close> whose handler returns \<^verbatim>\<open>null\<close>,
  and \<open>None\<close> is \<^verbatim>\<open>null\<close>. With a \<^verbatim>\<open>Buffer\<close> no step of the body throws. With a text,
  \<^verbatim>\<open>data.slice(0, 8)\<close> is a text too: \<^verbatim>\<open>findInstructionByDiscriminator\<close> returns
  \<^verbatim>\<open>null\<close> when the IDL has no instruction, and otherwise \<^verbatim>\<open>Buffer.compare\<close> throws a
  \<^verbatim>\<open>TypeError\<close> on its first call, which the handler turns into \<^verbatim>\<open>null\<close>.
\<close>

definition decodeAnchorInstruction ::
  "instruction \<Rightarrow> idl \<Rightarrow> pubkey list \<Rightarrow> decoded_instruction option" where
  "decodeAnchorInstruction instr i accountKeys =
     (case ix_data instr of
        Base58Text s \<Rightarrow> None
      | BufferData data \<Rightarrow>
          (let discriminator = take DISCRIMINATOR_SIZE data
           in case findInstructionByDiscriminator i discriminator of
                None \<Rightarrow> None
              | Some matchingIx \<Rightarrow>
                  (let accounts = resolve_accounts accountKeys (ix_accounts instr);
                       argsData = drop DISCRIMINATOR_SIZE data;
                       args = decodeAnchorArgs argsData matchingIx
                   in Some \<lparr>dec_name = idl_name matchingIx, dec_ix = matchingIx,
                             dec_args = args\<rparr>)))"

section \<open>core/simulator.ts\<close>

subsection \<open>Data of utils/types.ts and of the RPC client\<close>

text \<open>A public key is modelled by its base-58 text, so \<^verbatim>\<open>toString()\<close> is the identity.\<close>

record AccountInfo =
  lamports :: nat
  info_data :: "byte list"
  owner :: pubkey
  executable :: bool
  rentEpoch :: nat

record AccountState =
  pubkey :: pubkey
  account :: AccountInfo
  label :: "string option"
  programOwner :: "string option"

text \<open>
  The \<^verbatim>\<open>changes\<close> object of an \<^verbatim>\<open>AccountDiff\<close>. The type also allows \<^verbatim>\<open>owner\<close>,
  \<^verbatim>\<open>executable\<close> and \<^verbatim>\<open>rentEpoch\<close>; the simulator never sets them. A balance change is
  a pair of numbers.
\<close>

record diff_changes =
  data_changed :: "bool option"
  balance :: "(nat \<times> nat) option"

record AccountDiff =
  diff_pubkey :: pubkey
  before :: "AccountState option"
  after :: "AccountState option"
  changes :: diff_changes

record DebugInstruction =
  programId :: pubkey
  programName :: string
  instructionIndex :: nat
  logs :: "string list"
  accountDiffs :: "AccountDiff list"
  instructionName :: "string option"
  anchorInstruction :: "IdlInstruction option"
  anchorArgs :: "anchor_args option"

record DebugTransaction =
  signature :: "string option"
  success :: bool
  error :: "string option"
  instructions :: "DebugInstruction list"
  timestamp :: "int option"
  slot :: "nat option"
  network :: "string option"

record SimulateOptions =
  commitment :: "string option"
  signers :: "string list option"
  skipNetworkFallback :: bool

text \<open>
  The message of a fetched transaction: a legacy message (it has \<^verbatim>\<open>accountKeys\<close> and
  \<^verbatim>\<open>instructions\<close>, the interface \<^verbatim>\<open>LegacyMessage\<close> of the source) or a versioned one,
  of which the code reads the static account keys only. A versioned message stands here
  for one on which \<^verbatim>\<open>getAccountKeys()\<close> returns; on a message with unresolved address
  table lookups that call throws, and the handler of \<^verbatim>\<open>debugSignature\<close> returns the
  failure record.
\<close>

record LegacyMessage =
  accountKeys :: "pubkey list"
  msg_instructions :: "instruction list"
  isAccountSigner :: "nat \<Rightarrow> bool"
  isAccountWritable :: "nat \<Rightarrow> bool"

datatype message = Legacy LegacyMessage | Versioned "pubkey list"

record TransactionResponse =
  tx_message :: message
  blockTime :: "int option"
  tx_slot :: nat

text \<open>The transaction \<^verbatim>\<open>simulateFromSignature\<close> rebuilds for the dry run.\<close>

record AccountMeta =
  meta_pubkey :: "pubkey option"
  isSigner :: bool
  isWritable :: bool

record TransactionInstruction =
  ti_programId :: "pubkey option"
  ti_keys :: "AccountMeta list"
  ti_data :: "byte list"

record Transaction =
  recentBlockhash :: string
  feePayer :: "pubkey option"
  tx_instructions :: "TransactionInstruction list"

record SimulatedTransactionResponse =
  sim_err :: js_err
  sim_logs :: "string list option"

text \<open>
  The collaborators of the simulator. The RPC endpoints are reached through
  \<^verbatim>\<open>Connection\<close> objects, one for each URL; every call takes the state \<open>'n\<close> of the
  outside world and returns the next one, and may throw. \<^verbatim>\<open>getProgramName\<close> and
  \<^verbatim>\<open>getAccountLabel\<close> (\<^verbatim>\<open>utils/lookup.ts\<close>) read files of the user and are taken as
  given functions.
\<close>

record 'n env =
  getTransaction ::
    "string \<Rightarrow> string \<Rightarrow> string \<Rightarrow> 'n \<Rightarrow> (js_err + TransactionResponse option) \<times> 'n"
  getAccountInfo :: "string \<Rightarrow> pubkey \<Rightarrow> 'n \<Rightarrow> (js_err + AccountInfo option) \<times> 'n"
  getLatestBlockhash :: "string \<Rightarrow> string \<Rightarrow> 'n \<Rightarrow> (js_err + string) \<times> 'n"
  simulateTransaction ::
    "string \<Rightarrow> Transaction \<Rightarrow> string list option \<Rightarrow> 'n
       \<Rightarrow> (js_err + SimulatedTransactionResponse) \<times> 'n"
  getProgramName :: "string \<Rightarrow> string"
  getAccountLabel :: "pubkey \<Rightarrow> AccountInfo \<Rightarrow> string option"

text \<open>
  The fields of \<^verbatim>\<open>TransactionSimulator\<close>. The constructor and every switch of network
  set \<^verbatim>\<open>connection\<close> and \<^verbatim>\<open>rpcUrl\<close> together, so the connection is the one of
  \<open>rpcUrl\<close>.
\<close>

record simulator =
  rpcUrl :: string
  anchorIdlMap :: "pubkey \<rightharpoonup> idl"

subsection \<open>formatError and getNetworkName\<close>

fun formatError :: "js_err \<Rightarrow> string" where
  "formatError JsNullish = ''Unknown error''"
| "formatError (JsString s) = s"
| "formatError (JsObject (Some m) json tag) = m"
| "formatError (JsObject None (Some j) tag) = j"
| "formatError (JsObject None None tag) = tag"
| "formatError (JsPrimitive s) = s"

text \<open>Truthiness of an error value, as \<^verbatim>\<open>!(err)\<close> and \<^verbatim>\<open>err ? .. : ..\<close> test it.\<close>

fun truthy :: "js_err \<Rightarrow> bool" where
  "truthy JsNullish = False"
| "truthy (JsString s) = (s \<noteq> [])"
| "truthy (JsObject m json tag) = True"
| "truthy (JsPrimitive s) = (s \<notin> {''0'', ''NaN'', ''false''})"

definition getNetworkName :: "string \<Rightarrow> string" where
  "getNetworkName url =
     (if str_includes url ''mainnet'' then ''mainnet''
      else if str_includes url ''devnet'' then ''devnet''
      else if str_includes url ''testnet'' then ''testnet''
      else ''unknown network'')"

subsection \<open>Locating the transaction\<close>

definition mainnetUrl :: string where
  "mainnetUrl = ''https://api.mainnet-beta.solana.com''"

definition devnetUrl :: string where
  "devnetUrl = ''https://api.devnet.solana.com''"

definition testnetUrl :: string where
  "testnetUrl = ''https://api.testnet.solana.com''"

text \<open>\<^verbatim>\<open>options.commitment as Finality || 'confirmed'\<close>\<close>

definition commitment_or_default :: "SimulateOptions \<Rightarrow> string" where
  "commitment_or_default options =
     (case commitment options of
        None \<Rightarrow> ''confirmed''
      | Some c \<Rightarrow> if c = [] then ''confirmed'' else c)"

text \<open>
  The state of the search: the variable \<^verbatim>\<open>transaction\<close>, the field \<^verbatim>\<open>this.rpcUrl\<close>
  (with \<^verbatim>\<open>this.connection\<close>), and the outside world.

  \<open>try_network\<close> is the body each of the three fallback blocks guards with
  \<^verbatim>\<open>if (this.rpcUrl !== url)\<close>: a lookup on a fresh connection whose errors are caught
  and ignored, and the switch of network when the lookup yields the transaction.
\<close>

type_synonym 'n search = "TransactionResponse option \<times> string \<times> 'n"

definition try_network ::
  "'n env \<Rightarrow> string \<Rightarrow> string \<Rightarrow> SimulateOptions \<Rightarrow> 'n search \<Rightarrow> 'n search" where
  "try_network env url sig options s =
     (case s of (transaction, current, n) \<Rightarrow>
        (case getTransaction env url sig (commitment_or_default options) n of
           (Inr (Some t), n') \<Rightarrow> (Some t, url, n')
         | (Inr None, n') \<Rightarrow> (None, current, n')
         | (Inl err, n') \<Rightarrow> (transaction, current, n')))"

definition not_found :: "'n search \<Rightarrow> bool" where
  "not_found s = Option.is_none (fst s)"

text \<open>One fallback block: the guard \<^verbatim>\<open>if (this.rpcUrl !== url)\<close> around that body.\<close>

definition fallback_block ::
  "'n env \<Rightarrow> string \<Rightarrow> SimulateOptions \<Rightarrow> string \<Rightarrow> 'n search \<Rightarrow> 'n search" where
  "fallback_block env sig options url s =
     (if fst (snd s) \<noteq> url then try_network env url sig options s else s)"

text \<open>
  Lines 103 to 171: the mainnet block, then the devnet block and the testnet block, each
  of the two under \<^verbatim>\<open>if (!transaction)\<close>.
\<close>

definition network_fallback ::
  "'n env \<Rightarrow> string \<Rightarrow> SimulateOptions \<Rightarrow> 'n search \<Rightarrow> 'n search" where
  "network_fallback env sig options s0 =
     (let s1 = fallback_block env sig options mainnetUrl s0;
          s2 = (if not_found s1 then fallback_block env sig options devnetUrl s1 else s1);
          s3 = (if not_found s2 then fallback_block env sig options testnetUrl s2 else s2)
      in s3)"

text \<open>
  Lines 97 to 171: the first lookup on the simulator's own connection (an error here is
  not caught locally), then the fallback unless it is disabled.
\<close>

definition locate ::
  "'n env \<Rightarrow> string \<Rightarrow> string \<Rightarrow> SimulateOptions \<Rightarrow> 'n \<Rightarrow> js_err + 'n search" where
  "locate env url sig options n =
     (case getTransaction env url sig (commitment_or_default options) n of
        (Inl err, n0) \<Rightarrow> Inl err
      | (Inr transaction, n0) \<Rightarrow>
          if Option.is_none transaction \<and> \<not> skipNetworkFallback options
          then Inr (network_fallback env sig options (transaction, url, n0))
          else Inr (transaction, url, n0))"

subsection \<open>Capturing the accounts and running the simulation\<close>

definition message_accountKeys :: "message \<Rightarrow> pubkey list" where
  "message_accountKeys m = (case m of Legacy l \<Rightarrow> accountKeys l | Versioned keys \<Rightarrow> keys)"

text \<open>
  Lines 187 to 204: one \<^verbatim>\<open>getAccountInfo\<close> for each account key, on the active connection.
  An account that does not exist, or whose lookup throws, gets no entry in
  \<^verbatim>\<open>preTransactionAccounts\<close>.
\<close>

fun capture_accounts ::
  "'n env \<Rightarrow> string \<Rightarrow> pubkey list \<Rightarrow> (pubkey \<rightharpoonup> AccountState) \<Rightarrow> 'n
     \<Rightarrow> (pubkey \<rightharpoonup> AccountState) \<times> 'n" where
  "capture_accounts env url [] pre n = (pre, n)"
| "capture_accounts env url (key # keys) pre n =
     (case getAccountInfo env url key n of
        (Inr (Some accountInfo), n') \<Rightarrow>
          capture_accounts env url keys
            (pre(key \<mapsto> \<lparr>pubkey = key, account = accountInfo,
                           label = getAccountLabel env key accountInfo,
                           programOwner = Some (owner accountInfo)\<rparr>)) n'
      | (Inr None, n') \<Rightarrow> capture_accounts env url keys pre n'
      | (Inl err, n') \<Rightarrow> capture_accounts env url keys pre n')"

text \<open>
  The transaction rebuilt in \<^verbatim>\<open>simulateFromSignature\<close>: the fee payer is the first
  account key; a legacy message gives one instruction for each of its own, and the
  signer and writable flags are asked for the position of the account within the
  instruction; a versioned message gives no instruction. \<^verbatim>\<open>Buffer.from(ix.data)\<close>
  copies a buffer and takes the UTF-8 bytes of a text.
\<close>

definition rebuild_instruction :: "LegacyMessage \<Rightarrow> instruction \<Rightarrow> TransactionInstruction" where
  "rebuild_instruction m ix =
     (let accounts = map (js_index (accountKeys m)) (ix_accounts ix)
      in \<lparr>ti_programId = js_index (accountKeys m) (programIdIndex ix),
          ti_keys = map (\<lambda>(idx, pk). \<lparr>meta_pubkey = pk, isSigner = isAccountSigner m idx,
                                       isWritable = isAccountWritable m idx\<rparr>)
                        (enumerate 0 accounts),
          ti_data = (case ix_data ix of BufferData bs \<Rightarrow> bs | Base58Text s \<Rightarrow> utf8_bytes s)\<rparr>)"

definition rebuild_transaction :: "string \<Rightarrow> message \<Rightarrow> Transaction" where
  "rebuild_transaction blockhash m =
     (case m of
        Legacy l \<Rightarrow>
          \<lparr>recentBlockhash = blockhash, feePayer = js_index (accountKeys l) 0,
           tx_instructions = map (rebuild_instruction l) (msg_instructions l)\<rparr>
      | Versioned keys \<Rightarrow>
          \<lparr>recentBlockhash = blockhash, feePayer = js_index keys 0, tx_instructions = []\<rparr>)"

definition simulateFromSignature ::
  "'n env \<Rightarrow> string \<Rightarrow> string \<Rightarrow> SimulateOptions \<Rightarrow> 'n
     \<Rightarrow> (js_err + SimulatedTransactionResponse) \<times> 'n" where
  "simulateFromSignature env url sig options n =
     (case getTransaction env url sig (commitment_or_default options) n of
        (Inl err, n1) \<Rightarrow> (Inl err, n1)
      | (Inr None, n1) \<Rightarrow> (Inl (js_Error (''Transaction '' @ sig @ '' not found'')), n1)
      | (Inr (Some transaction), n1) \<Rightarrow>
          (case getLatestBlockhash env url (commitment_or_default options) n1 of
             (Inl err, n2) \<Rightarrow> (Inl err, n2)
           | (Inr blockhash, n2) \<Rightarrow>
               simulateTransaction env url
                 (rebuild_transaction blockhash (tx_message transaction)) (signers options) n2))"

subsection \<open>Assembling the trace\<close>

text \<open>
  Lines 261 to 287, the loop over \<^verbatim>\<open>instruction.accounts\<close>. \<^verbatim>\<open>accountKeys[accountIdx]\<close>
  out of range is \<^verbatim>\<open>undefined\<close>, and \<^verbatim>\<open>account.toString()\<close> then throws. The post state
  is the pre state (\<^verbatim>\<open>const postState = preState\<close>), and a diff is pushed only under
  \<^verbatim>\<open>if (preState && postState)\<close>.
\<close>

definition make_diff :: "pubkey \<Rightarrow> AccountState \<Rightarrow> AccountState \<Rightarrow> AccountDiff" where
  "make_diff acc preState postState =
     \<lparr>diff_pubkey = acc, before = Some preState, after = Some postState,
      changes = \<lparr>data_changed = Some False,
                 balance = (if lamports (account preState) \<noteq> lamports (account postState)
                            then Some (lamports (account preState), lamports (account postState))
                            else None)\<rparr>\<rparr>"

fun account_diffs ::
  "pubkey list \<Rightarrow> (pubkey \<rightharpoonup> AccountState) \<Rightarrow> nat list \<Rightarrow> js_err + AccountDiff list" where
  "account_diffs keys pre [] = Inr []"
| "account_diffs keys pre (accountIdx # rest) =
     (case js_index keys accountIdx of
        None \<Rightarrow> Inl js_TypeError
      | Some acc \<Rightarrow>
          (let preState = pre acc;
               postState = preState
           in case account_diffs keys pre rest of
                Inl err \<Rightarrow> Inl err
              | Inr ds \<Rightarrow>
                  (case (preState, postState) of
                     (Some b, Some a) \<Rightarrow> Inr (make_diff acc b a # ds)
                   | _ \<Rightarrow> Inr ds)))"

text \<open>
  Lines 229 to 291, the callback of \<^verbatim>\<open>message.instructions.forEach\<close> for the instruction
  at position \<open>index\<close>. \<^verbatim>\<open>programId.toString()\<close> throws when the program index is out
  of range. The log bucket is \<^verbatim>\<open>logsByInstruction[index] || []\<close>; an array is truthy,
  so the default is taken for a missing key only. \<^verbatim>\<open>decodeAnchorInstruction\<close> is tried
  when an IDL is registered for the program.
\<close>

definition debug_instruction ::
  "'n env \<Rightarrow> (pubkey \<rightharpoonup> idl) \<Rightarrow> pubkey list \<Rightarrow> (pubkey \<rightharpoonup> AccountState)
     \<Rightarrow> (nat \<rightharpoonup> string list) \<Rightarrow> instruction \<Rightarrow> nat \<Rightarrow> js_err + DebugInstruction" where
  "debug_instruction env idls keys pre logsByInstruction ix index =
     (case js_index keys (programIdIndex ix) of
        None \<Rightarrow> Inl js_TypeError
      | Some pid \<Rightarrow>
          (let decoded = (case idls pid of
                            None \<Rightarrow> None
                          | Some i \<Rightarrow> decodeAnchorInstruction ix i keys)
           in case account_diffs keys pre (ix_accounts ix) of
                Inl err \<Rightarrow> Inl err
              | Inr diffs \<Rightarrow>
                  Inr \<lparr>programId = pid, programName = getProgramName env pid,
                       instructionIndex = index,
                       logs = (case logsByInstruction index of None \<Rightarrow> [] | Some b \<Rightarrow> b),
                       accountDiffs = diffs,
                       instructionName = map_option dec_name decoded,
                       anchorInstruction = map_option dec_ix decoded,
                       anchorArgs = map_option dec_args decoded\<rparr>))"

text \<open>\<^verbatim>\<open>forEach\<close> from position \<open>index\<close> on; a throw in one callback ends the loop.\<close>

fun debug_instructions ::
  "'n env \<Rightarrow> (pubkey \<rightharpoonup> idl) \<Rightarrow> pubkey list \<Rightarrow> (pubkey \<rightharpoonup> AccountState)
     \<Rightarrow> (nat \<rightharpoonup> string list) \<Rightarrow> nat \<Rightarrow> instruction list \<Rightarrow> js_err + DebugInstruction list" where
  "debug_instructions env idls keys pre logsByInstruction index [] = Inr []"
| "debug_instructions env idls keys pre logsByInstruction index (ix # ixs) =
     (case debug_instruction env idls keys pre logsByInstruction ix index of
        Inl err \<Rightarrow> Inl err
      | Inr d \<Rightarrow>
          (case debug_instructions env idls keys pre logsByInstruction (index + 1) ixs of
             Inl err \<Rightarrow> Inl err
           | Inr ds \<Rightarrow> Inr (d # ds)))"

text \<open>The single instruction reported for a versioned transaction.\<close>

definition versioned_placeholder :: "string list \<Rightarrow> DebugInstruction" where
  "versioned_placeholder ls =
     \<lparr>programId = ''11111111111111111111111111111111'', programName = ''System Program'',
      instructionIndex = 0, logs = ls, accountDiffs = [],
      instructionName = None, anchorInstruction = None, anchorArgs = None\<rparr>"

text \<open>\<^verbatim>\<open>simulationResult.value.logs || []\<close>\<close>

definition logs_or_empty :: "SimulatedTransactionResponse \<Rightarrow> string list" where
  "logs_or_empty r = (case sim_logs r of None \<Rightarrow> [] | Some ls \<Rightarrow> ls)"

text \<open>
  Lines 212 to 304: the header of the trace, the grouping of the logs, and the
  instructions. \<^verbatim>\<open>transaction.blockTime || undefined\<close> drops a null and a zero time.
\<close>

definition assemble ::
  "'n env \<Rightarrow> (pubkey \<rightharpoonup> idl) \<Rightarrow> string \<Rightarrow> string \<Rightarrow> TransactionResponse
     \<Rightarrow> (pubkey \<rightharpoonup> AccountState) \<Rightarrow> SimulatedTransactionResponse
     \<Rightarrow> js_err + DebugTransaction" where
  "assemble env idls url sig transaction pre simulationResult =
     (let header =
            \<lparr>signature = Some sig,
             success = (\<not> truthy (sim_err simulationResult)),
             error = (if truthy (sim_err simulationResult)
                      then Some (formatError (sim_err simulationResult)) else None),
             instructions = [],
             timestamp = (case blockTime transaction of
                            None \<Rightarrow> None
                          | Some t \<Rightarrow> if t = 0 then None else Some t),
             slot = Some (tx_slot transaction),
             network = Some (getNetworkName url)\<rparr>
      in case parseTransactionLogs (logs_or_empty simulationResult) of
           Inl err \<Rightarrow> Inl err
         | Inr logsByInstruction \<Rightarrow>
             (case tx_message transaction of
                Legacy m \<Rightarrow>
                  (case debug_instructions env idls (accountKeys m) pre logsByInstruction 0
                          (msg_instructions m) of
                     Inl err \<Rightarrow> Inl err
                   | Inr ds \<Rightarrow> Inr (header\<lparr>instructions := ds\<rparr>))
              | Versioned keys \<Rightarrow>
                  Inr (header\<lparr>instructions :=
                                 [versioned_placeholder (logs_or_empty simulationResult)]\<rparr>)))"

subsection \<open>debugSignature\<close>

text \<open>
  Lines 177 to 304, what follows a successful search: the accounts are captured and the
  transaction is simulated on the network \<open>url\<close> the search ended on, and the trace is
  assembled. \<open>Inl\<close> is a thrown value.
\<close>

definition trace_located ::
  "'n env \<Rightarrow> (pubkey \<rightharpoonup> idl) \<Rightarrow> string \<Rightarrow> string \<Rightarrow> SimulateOptions \<Rightarrow> TransactionResponse
     \<Rightarrow> 'n \<Rightarrow> js_err + DebugTransaction" where
  "trace_located env idls url sig options transaction n1 =
     (case capture_accounts env url (message_accountKeys (tx_message transaction))
             Map.empty n1 of
        (pre, n2) \<Rightarrow>
          (case simulateFromSignature env url sig options n2 of
             (Inl err, n3) \<Rightarrow> Inl err
           | (Inr simulationResult, n3) \<Rightarrow>
               assemble env idls url sig transaction pre simulationResult))"

text \<open>
  The body of the \<^verbatim>\<open>try\<close>. The simulator's fields are returned as the search left
  them.
\<close>

definition debugSignature_try ::
  "'n env \<Rightarrow> simulator \<Rightarrow> string \<Rightarrow> SimulateOptions \<Rightarrow> 'n
     \<Rightarrow> (js_err + DebugTransaction) \<times> simulator" where
  "debugSignature_try env sim sig options n =
     (case locate env (rpcUrl sim) sig options n of
        Inl err \<Rightarrow> (Inl err, sim)
      | Inr (found, url, n1) \<Rightarrow>
          (let sim' = sim\<lparr>rpcUrl := url\<rparr>
           in case found of
                None \<Rightarrow>
                  (Inl (js_Error (''Transaction '' @ sig @ '' not found on any network'')), sim')
              | Some transaction \<Rightarrow>
                  (trace_located env (anchorIdlMap sim') url sig options transaction n1, sim')))"

text \<open>The \<^verbatim>\<open>catch\<close> of \<^verbatim>\<open>debugSignature\<close>: what it returns for a thrown value.\<close>

definition failure :: "string \<Rightarrow> js_err \<Rightarrow> DebugTransaction" where
  "failure sig err =
     \<lparr>signature = Some sig, success = False, error = Some (formatError err),
      instructions = [], timestamp = None, slot = None, network = None\<rparr>"

definition debugSignature ::
  "'n env \<Rightarrow> simulator \<Rightarrow> string \<Rightarrow> SimulateOptions \<Rightarrow> 'n \<Rightarrow> DebugTransaction \<times> simulator" where
  "debugSignature env sim sig options n =
     (case debugSignature_try env sim sig options n of
        (Inl err, sim') \<Rightarrow> (failure sig err, sim')
      | (Inr r, sim') \<Rightarrow> (r, sim'))"

section \<open>Notions used to state the properties\<close>

text \<open>
  The grouping as a list of buckets, the first being the one keyed \<open>1\<close>:
  \<open>buckets_map\<close> is the dictionary such a list stands for, \<open>state_of\<close> the loop state,
  and \<open>group_step\<close> what one line does to the list. A line is \<open>accepted\<close> unless it is
  invocation-shaped with no depth to read. A bucket is \<open>opened_bucket\<close> when it starts
  with a line that opens a bucket and holds no other such line.
\<close>

definition accepted :: "string \<Rightarrow> bool" where
  "accepted l = (\<not> invoke_shaped l \<or> invoke_match l \<noteq> None)"

definition buckets_map :: "string list list \<Rightarrow> (nat \<rightharpoonup> string list)" where
  "buckets_map bs k = (if 1 \<le> k \<and> k \<le> length bs then Some (bs ! (k - 1)) else None)"

definition state_of :: "string list list \<Rightarrow> parse_state" where
  "state_of bs =
     \<lparr>instructionLogs = buckets_map bs, currentInstruction = length bs,
      inInstruction = (bs \<noteq> [])\<rparr>"

definition group_step :: "string list list \<Rightarrow> string \<Rightarrow> string list list" where
  "group_step bs l =
     (if depth1_invoke l then bs @ [[l]]
      else if bs \<noteq> [] \<and> accepted l then butlast bs @ [last bs @ [l]]
      else bs)"

definition opened_bucket :: "string list \<Rightarrow> bool" where
  "opened_bucket b = (b \<noteq> [] \<and> depth1_invoke (hd b) \<and> list_all (\<lambda>l. \<not> depth1_invoke l) (tl b))"

text \<open>The lines attached to an instruction when the grouped logs are read at key \<open>i\<close>.\<close>

definition bucket :: "(nat \<rightharpoonup> string list) \<Rightarrow> nat \<Rightarrow> string list" where
  "bucket g i = (case g i of None \<Rightarrow> [] | Some b \<Rightarrow> b)"

text \<open>
  The fallback policy in the words of the specification: probe an ordered list of
  networks, skipping the one already tried, and stop at the first that yields the
  transaction; a probe that throws counts as a miss. The result is the transaction with
  the network that yielded it.
\<close>

fun probe_networks ::
  "'n env \<Rightarrow> string \<Rightarrow> string \<Rightarrow> SimulateOptions \<Rightarrow> string list \<Rightarrow> 'n
     \<Rightarrow> (TransactionResponse \<times> string) option \<times> 'n" where
  "probe_networks env tried sig options [] n = (None, n)"
| "probe_networks env tried sig options (u # us) n =
     (if u = tried then probe_networks env tried sig options us n
      else (case getTransaction env u sig (commitment_or_default options) n of
              (Inr (Some t), n') \<Rightarrow> (Some (t, u), n')
            | (Inr None, n') \<Rightarrow> probe_networks env tried sig options us n'
            | (Inl err, n') \<Rightarrow> probe_networks env tried sig options us n'))"

definition well_known_networks :: "string list" where
  "well_known_networks = [mainnetUrl, devnetUrl, testnetUrl]"

text \<open>The search state a probe result stands for: on a miss the network stays the one tried.\<close>

definition search_of ::
  "string \<Rightarrow> (TransactionResponse \<times> string) option \<times> 'n \<Rightarrow> 'n search" where
  "search_of tried p =
     (case p of (Some (t, u), n) \<Rightarrow> (Some t, u, n) | (None, n) \<Rightarrow> (None, tried, n))"

text \<open>
  A payload whose discriminator prefix is the discriminator of no instruction of the
  program's IDL.
\<close>

definition unregistered :: "idl \<Rightarrow> byte list \<Rightarrow> bool" where
  "unregistered i payload =
     (case idl_instructions i of
        None \<Rightarrow> True
      | Some ixs \<Rightarrow>
          \<forall>ix\<in>set ixs. deriveInstructionDiscriminator (idl_name ix)
                          \<noteq> take DISCRIMINATOR_SIZE payload)"

section \<open>Example inputs\<close>


text \<open>
  A program \<open>Prog1\<close> whose IDL declares \<open>transfer(amount: u64)\<close>, and a legacy
  transaction of two instructions of that program, as the RPC client returns it. The
  first instruction touches the fee payer and an account \<open>Fresh\<close> that does not exist
  yet.
\<close>

definition transfer_ix :: IdlInstruction where
  "transfer_ix =
     \<lparr>idl_name = ''transfer'', idl_accounts = [],
      idl_args = Some [\<lparr>field_name = ''amount'', field_type = ''u64''\<rparr>]\<rparr>"

definition transfer_idl :: idl where
  "transfer_idl = \<lparr>idl_instructions = Some [transfer_ix]\<rparr>"

definition example_message :: LegacyMessage where
  "example_message =
     \<lparr>accountKeys = [''Payer'', ''Fresh'', ''Prog1''],
      msg_instructions =
        [\<lparr>programIdIndex = 2, ix_accounts = [0, 1], ix_data = Base58Text ''3Bxs4h24hBtQy9rw''\<rparr>,
         \<lparr>programIdIndex = 2, ix_accounts = [0], ix_data = Base58Text ''3Bxs3zzLZLuLQEYX''\<rparr>],
      isAccountSigner = (\<lambda>i. i = 0), isAccountWritable = (\<lambda>i. i < 2)\<rparr>"

definition example_transaction :: TransactionResponse where
  "example_transaction =
     \<lparr>tx_message = Legacy example_message, blockTime = Some 1700000000, tx_slot = 42\<rparr>"

definition example_logs :: "string list" where
  "example_logs =
     [''Program Prog1 invoke [1]'', ''Program log: Instruction: Transfer'',
      ''Program Prog1 success'',
      ''Program Prog1 invoke [1]'', ''Program Prog1 success'']"

definition payer_info :: AccountInfo where
  "payer_info =
     \<lparr>lamports = 500, info_data = [], owner = ''11111111111111111111111111111111'',
      executable = False, rentEpoch = 0\<rparr>"

definition payer_state :: AccountState where
  "payer_state =
     \<lparr>pubkey = ''Payer'', account = payer_info, label = None,
      programOwner = Some ''11111111111111111111111111111111''\<rparr>"

text \<open>The response of the dry run.\<close>

definition example_result :: SimulatedTransactionResponse where
  "example_result = \<lparr>sim_err = JsNullish, sim_logs = Some example_logs\<rparr>"

text \<open>
  An outside world without state: the transaction \<open>sig1\<close> is known on devnet only,
  where the payer's account exists and \<open>Fresh\<close> does not; the dry run succeeds with
  \<open>example_logs\<close>.
\<close>

definition example_env :: "unit env" where
  "example_env =
     \<lparr>getTransaction = (\<lambda>url sig c n.
        (if url = devnetUrl \<and> sig = ''sig1'' then Inr (Some example_transaction)
         else Inr None, n)),
      getAccountInfo = (\<lambda>url key n.
        (if url = devnetUrl \<and> key = ''Payer'' then Inr (Some payer_info) else Inr None, n)),
      getLatestBlockhash = (\<lambda>url c n. (Inr ''blockhash'', n)),
      simulateTransaction = (\<lambda>url tx sg n. (Inr example_result, n)),
      getProgramName = (\<lambda>p. p),
      getAccountLabel = (\<lambda>k a. None)\<rparr>"

text \<open>A simulator started on a local validator, with the IDL of \<open>Prog1\<close> registered.\<close>

definition example_simulator :: simulator where
  "example_simulator =
     \<lparr>rpcUrl = ''http://localhost:8899'', anchorIdlMap = [''Prog1'' \<mapsto> transfer_idl]\<rparr>"

definition example_options :: SimulateOptions where
  "example_options = \<lparr>commitment = None, signers = None, skipNetworkFallback = False\<rparr>"

text \<open>
  The accounts captured for \<open>sig1\<close> on devnet, and the trace the simulator returns for it.
\<close>

definition example_pre :: "pubkey \<rightharpoonup> AccountState" where
  "example_pre = [''Payer'' \<mapsto> payer_state]"

definition payer_diff :: AccountDiff where
  "payer_diff =
     \<lparr>diff_pubkey = ''Payer'', before = Some payer_state, after = Some payer_state,
      changes = \<lparr>data_changed = Some False, balance = None\<rparr>\<rparr>"

definition example_trace :: DebugTransaction where
  "example_trace =
     \<lparr>signature = Some ''sig1'', success = True, error = None,
      instructions =
        [\<lparr>programId = ''Prog1'', programName = ''Prog1'', instructionIndex = 0, logs = [],
          accountDiffs = [payer_diff], instructionName = None,
          anchorInstruction = None, anchorArgs = None\<rparr>,
         \<lparr>programId = ''Prog1'', programName = ''Prog1'', instructionIndex = 1,
          logs = [''Program Prog1 invoke [1]'', ''Program log: Instruction: Transfer'',
                  ''Program Prog1 success''],
          accountDiffs = [payer_diff], instructionName = None,
          anchorInstruction = None, anchorArgs = None\<rparr>],
      timestamp = Some 1700000000, slot = Some 42, network = Some ''devnet''\<rparr>"

text \<open>The same world with every transaction lookup failing, and with the dry run failing.\<close>

definition unreachable_env :: "unit env" where
  "unreachable_env =
     example_env\<lparr>getTransaction := (\<lambda>url sig c n. (Inl (js_Error ''fetch failed''), n))\<rparr>"

definition dry_run_down_env :: "unit env" where
  "dry_run_down_env =
     example_env\<lparr>simulateTransaction :=
                   (\<lambda>url tx sg n. (Inl (js_Error ''fetch failed''), n))\<rparr>"

text \<open>
  A legacy transaction \<open>sig3\<close> of one instruction, which closes the account \<open>X\<close> into
  the account \<open>Y\<close>. When the accounts are captured \<open>X\<close> exists with 500 lamports and
  \<open>Y\<close> does not exist. The simulator is started on devnet, where the transaction is
  known, and the dry run succeeds.
\<close>

definition closing_message :: LegacyMessage where
  "closing_message =
     \<lparr>accountKeys = [''Payer'', ''X'', ''Y'', ''Prog1''],
      msg_instructions =
        [\<lparr>programIdIndex = 3, ix_accounts = [1, 2], ix_data = Base58Text ''A''\<rparr>],
      isAccountSigner = (\<lambda>i. i = 0), isAccountWritable = (\<lambda>i. i < 3)\<rparr>"

definition closing_transaction :: TransactionResponse where
  "closing_transaction =
     \<lparr>tx_message = Legacy closing_message, blockTime = Some 1700000100, tx_slot = 43\<rparr>"

definition closing_result :: SimulatedTransactionResponse where
  "closing_result =
     \<lparr>sim_err = JsNullish,
      sim_logs = Some [''Program Prog1 invoke [1]'', ''Program log: Instruction: CloseAccount'',
                       ''Program Prog1 success'']\<rparr>"

definition x_info :: AccountInfo where
  "x_info =
     \<lparr>lamports = 500, info_data = [], owner = ''Prog1'', executable = False, rentEpoch = 0\<rparr>"

definition x_state :: AccountState where
  "x_state = \<lparr>pubkey = ''X'', account = x_info, label = None, programOwner = Some ''Prog1''\<rparr>"

definition x_diff :: AccountDiff where
  "x_diff =
     \<lparr>diff_pubkey = ''X'', before = Some x_state, after = Some x_state,
      changes = \<lparr>data_changed = Some False, balance = None\<rparr>\<rparr>"

definition closing_env :: "unit env" where
  "closing_env =
     \<lparr>getTransaction = (\<lambda>url sig c n.
        (if url = devnetUrl \<and> sig = ''sig3'' then Inr (Some closing_transaction)
         else Inr None, n)),
      getAccountInfo = (\<lambda>url key n.
        (if url = devnetUrl \<and> key = ''X'' then Inr (Some x_info) else Inr None, n)),
      getLatestBlockhash = (\<lambda>url c n. (Inr ''blockhash'', n)),
      simulateTransaction = (\<lambda>url tx sg n. (Inr closing_result, n)),
      getProgramName = (\<lambda>p. p),
      getAccountLabel = (\<lambda>k a. None)\<rparr>"

definition devnet_simulator :: simulator where
  "devnet_simulator = \<lparr>rpcUrl = devnetUrl, anchorIdlMap = Map.empty\<rparr>"

text \<open>
  A log stream whose second line is a message of the program that happens to contain
  \<^verbatim>\<open> invoke [\<close> with no depth after it.
\<close>

definition dropped_line_logs :: "string list" where
  "dropped_line_logs =
     [''Program P invoke [1]'', ''Program log: about to invoke [transfer]'', ''Program P success'']"

text \<open>
  Payloads for \<open>transfer(amount: u64)\<close>: three argument bytes where eight are needed,
  ten where eight are needed, and a payload whose prefix is no discriminator of the IDL.
\<close>

definition truncated_instruction :: instruction where
  "truncated_instruction =
     \<lparr>programIdIndex = 2, ix_accounts = [0, 1],
      ix_data = BufferData (utf8_bytes ''transfer'' @ [1, 2, 3])\<rparr>"

definition overlong_instruction :: instruction where
  "overlong_instruction =
     \<lparr>programIdIndex = 2, ix_accounts = [0, 1],
      ix_data = BufferData (utf8_bytes ''transfer'' @ [232, 3, 0, 0, 0, 0, 0, 0, 255, 255])\<rparr>"

definition unknown_instruction :: instruction where
  "unknown_instruction =
     \<lparr>programIdIndex = 2, ix_accounts = [0],
      ix_data = BufferData (utf8_bytes ''withdraw'' @ [7])\<rparr>"

section \<open>The log grouper never throws and numbers its buckets from one\<close>

lemma buckets_map_open:
  "(buckets_map bs)(Suc (length bs) \<mapsto> [l]) = buckets_map (bs @ [[l]])"
  by (rule ext) (auto simp: buckets_map_def nth_append)

lemma buckets_map_push:
  assumes "bs \<noteq> []"
  shows "(buckets_map bs)(length bs \<mapsto> last bs @ [l]) = buckets_map (butlast bs @ [last bs @ [l]])"
proof (rule ext)
  fix k
  from assms have pos: "Suc 0 \<le> length bs" by (cases bs) simp_all
  show "((buckets_map bs)(length bs \<mapsto> last bs @ [l])) k
          = buckets_map (butlast bs @ [last bs @ [l]]) k"
  proof (cases "k = length bs")
    case True
    with pos show ?thesis by (simp add: buckets_map_def nth_append)
  next
    case False
    show ?thesis
    proof (cases "1 \<le> k \<and> k < length bs")
      case True
      then have "k - 1 < length bs - 1" by arith
      with True False show ?thesis
        by (simp add: buckets_map_def nth_append nth_butlast)
    next
      case out: False
      with False pos show ?thesis by (auto simp: buckets_map_def)
    qed
  qed
qed

lemma buckets_map_last:
  assumes "bs \<noteq> []"
  shows "buckets_map bs (length bs) = Some (last bs)"
  using assms by (simp add: buckets_map_def last_conv_nth Suc_leI)

lemma push_log_state_of:
  assumes "bs \<noteq> []"
  shows "push_log (state_of bs) l = Inr (state_of (butlast bs @ [last bs @ [l]]))"
  using assms buckets_map_last [OF assms] buckets_map_push [OF assms, of l]
  by (simp add: push_log_def state_of_def)

lemma parse_step_state_of:
  "parse_step (state_of bs) l = Inr (state_of (group_step bs l))"
proof (cases "depth1_invoke l")
  case True
  have "buckets_map bs (Suc (length bs)) = None" by (simp add: buckets_map_def)
  with True buckets_map_open [of bs l] show ?thesis
    by (simp add: parse_step_def depth1_invoke_def group_step_def state_of_def Let_def)
next
  case no: False
  show ?thesis
  proof (cases "bs \<noteq> [] \<and> accepted l")
    case True
    then have "inInstruction (state_of bs)" by (simp add: state_of_def)
    with True no push_log_state_of [of bs l] show ?thesis
      by (auto simp: parse_step_def depth1_invoke_def group_step_def accepted_def
               split: option.splits)
  next
    case False
    then have "bs = [] \<or> (invoke_shaped l \<and> invoke_match l = None)"
      by (auto simp: accepted_def)
    then show ?thesis
    proof
      assume "bs = []"
      with no show ?thesis
        by (auto simp: parse_step_def depth1_invoke_def group_step_def state_of_def
                 split: option.splits)
    next
      assume m: "invoke_shaped l \<and> invoke_match l = None"
      then have "\<not> accepted l" by (simp add: accepted_def)
      with no have "group_step bs l = bs" by (simp add: group_step_def)
      moreover from m have "parse_step (state_of bs) l = Inr (state_of bs)"
        by (simp add: parse_step_def)
      ultimately show ?thesis by simp
    qed
  qed
qed

lemma parse_loop_state_of:
  "parse_loop (state_of bs) ls = Inr (state_of (foldl group_step bs ls))"
  by (induction ls arbitrary: bs) (simp_all add: parse_step_state_of)

lemma parseTransactionLogs_buckets_map:
  "parseTransactionLogs ls = Inr (buckets_map (foldl group_step [] ls))"
proof -
  have "parse_init = state_of []"
    by (simp add: parse_init_def state_of_def buckets_map_def fun_eq_iff)
  with parse_loop_state_of [of "[]" ls]
  have "parse_loop parse_init ls = Inr (state_of (foldl group_step [] ls))"
    by simp
  then show ?thesis
    by (simp add: parseTransactionLogs_def state_of_def)
qed


lemma depth1_accepted: "depth1_invoke l \<Longrightarrow> accepted l"
  by (simp add: depth1_invoke_def accepted_def)

lemma concat_group_step:
  "concat (group_step bs l)
     = concat bs @ (if depth1_invoke l \<or> (bs \<noteq> [] \<and> accepted l) then [l] else [])"
proof (cases "bs = []")
  case True
  then show ?thesis by (simp add: group_step_def)
next
  case False
  then have "concat bs = concat (butlast bs) @ last bs"
    by (metis append_butlast_last_id concat.simps(1,2) concat_append append_Nil2)
  with False show ?thesis by (simp add: group_step_def)
qed

lemma group_step_nonempty: "(group_step bs l \<noteq> []) = (bs \<noteq> [] \<or> depth1_invoke l)"
  by (simp add: group_step_def)

lemma concat_foldl_group_step:
  "concat (foldl group_step bs ls)
     = concat bs @ filter accepted
         (if bs = [] then dropWhile (\<lambda>l. \<not> depth1_invoke l) ls else ls)"
proof (induction ls arbitrary: bs)
  case Nil
  then show ?case by simp
next
  case (Cons l ls)
  show ?case
  proof (cases "bs = [] \<and> \<not> depth1_invoke l")
    case True
    then have "group_step bs l = []" by (simp add: group_step_def)
    with True Cons.IH [of "[]"] show ?thesis by simp
  next
    case False
    then have ne: "group_step bs l \<noteq> []" by (simp add: group_step_nonempty)
    from False have a: "(depth1_invoke l \<or> (bs \<noteq> [] \<and> accepted l)) = accepted l"
      using depth1_accepted [of l] by auto
    from False have b: "(if bs = [] then dropWhile (\<lambda>l. \<not> depth1_invoke l) (l # ls) else l # ls) = l # ls"
      by auto
    from Cons.IH [of "group_step bs l"] ne
    have "concat (foldl group_step bs (l # ls)) = concat (group_step bs l) @ filter accepted ls"
      by simp
    also have "\<dots> = concat bs @ (if accepted l then [l] else []) @ filter accepted ls"
      by (simp add: concat_group_step a)
    also have "\<dots> = concat bs @ filter accepted (l # ls)" by simp
    finally show ?thesis by (simp only: b)
  qed
qed

lemma opened_group_step:
  assumes "list_all opened_bucket bs"
  shows "list_all opened_bucket (group_step bs l)"
proof (cases "depth1_invoke l")
  case True
  with assms show ?thesis by (simp add: group_step_def opened_bucket_def)
next
  case no: False
  show ?thesis
  proof (cases "bs \<noteq> [] \<and> accepted l")
    case True
    from assms have all: "\<forall>b\<in>set bs. opened_bucket b" by (simp add: list_all_iff)
    with True have lastb: "opened_bucket (last bs)" by simp
    from all have front: "\<forall>b\<in>set (butlast bs). opened_bucket b"
      by (auto dest: in_set_butlastD)
    from lastb no have "opened_bucket (last bs @ [l])"
      by (cases "last bs") (simp_all add: opened_bucket_def)
    with front True no show ?thesis by (simp add: group_step_def list_all_iff)
  next
    case False
    with no assms show ?thesis by (auto simp: group_step_def)
  qed
qed

lemma opened_foldl_group_step:
  "list_all opened_bucket bs \<Longrightarrow> list_all opened_bucket (foldl group_step bs ls)"
  by (induction ls arbitrary: bs) (simp_all add: opened_group_step)


lemma length_group_step:
  "length (group_step bs l) = length bs + (if depth1_invoke l then 1 else 0)"
  by (simp add: group_step_def)

lemma length_foldl_group_step:
  "length (foldl group_step bs ls) = length bs + length (filter depth1_invoke ls)"
  by (induction ls arbitrary: bs) (simp_all add: length_group_step)

text \<open>
  \<^verbatim>\<open>parseTransactionLogs\<close> returns on every input. Its buckets are keyed \<open>1\<close> to the
  number of lines that open a bucket; each starts with such a line and holds no other;
  and read in the order of their keys they are the stream from its first opening line
  on, without the lines that are not accepted: no line is in two buckets, and no
  accepted line after the first opening line is missing.
\<close>

lemma parseTransactionLogs_groups:
  "\<exists>bs. parseTransactionLogs ls = Inr (buckets_map bs) \<and>
        length bs = length (filter depth1_invoke ls) \<and>
        list_all opened_bucket bs \<and>
        concat bs = filter accepted (dropWhile (\<lambda>l. \<not> depth1_invoke l) ls)"
proof (intro exI conjI)
  show "parseTransactionLogs ls = Inr (buckets_map (foldl group_step [] ls))"
    by (rule parseTransactionLogs_buckets_map)
  show "length (foldl group_step [] ls) = length (filter depth1_invoke ls)"
    by (simp add: length_foldl_group_step)
  show "list_all opened_bucket (foldl group_step [] ls)"
    by (rule opened_foldl_group_step) simp
  show "concat (foldl group_step [] ls)
          = filter accepted (dropWhile (\<lambda>l. \<not> depth1_invoke l) ls)"
    by (simp add: concat_foldl_group_step)
qed

lemma parseTransactionLogs_no_opener:
  assumes "filter depth1_invoke ls = []"
  shows "parseTransactionLogs ls = Inr Map.empty"
proof -
  from parseTransactionLogs_groups [of ls] assms obtain bs where
    "parseTransactionLogs ls = Inr (buckets_map bs)" "length bs = 0"
    by auto
  then show ?thesis by (simp add: buckets_map_def fun_eq_iff)
qed

lemma dom_buckets_map: "dom (buckets_map bs) = {1..length bs}"
  by (auto simp: buckets_map_def dom_def split: if_splits)

lemma parseTransactionLogs_dom:
  "\<exists>g. parseTransactionLogs ls = Inr g \<and> dom g = {1..length (filter depth1_invoke ls)}"
proof -
  from parseTransactionLogs_groups [of ls] obtain bs where
    "parseTransactionLogs ls = Inr (buckets_map bs)"
    "length bs = length (filter depth1_invoke ls)"
    by auto
  with dom_buckets_map [of bs] show ?thesis by simp
qed

lemma parseTransactionLogs_key0:
  assumes "parseTransactionLogs ls = Inr g"
  shows "g 0 = None"
proof -
  from parseTransactionLogs_buckets_map [of ls] assms
  have "g = buckets_map (foldl group_step [] ls)" by simp
  then show ?thesis by (simp add: buckets_map_def)
qed

section \<open>The placeholder discriminator\<close>

lemma discriminator_loop_length: "length (discriminator_loop i nb ph) = length ph"
proof (induction i nb ph rule: discriminator_loop.induct)
  case (1 i nb ph)
  then show ?case
    by (subst discriminator_loop.simps) simp
qed

lemma discriminator_loop_nth:
  "j < length ph \<Longrightarrow> length ph = 8 \<Longrightarrow>
   discriminator_loop i nb ph ! j = (if i \<le> j \<and> j < length nb then nb ! j else ph ! j)"
proof (induction i nb ph rule: discriminator_loop.induct)
  case (1 i nb ph)
  show ?case
  proof (cases "i < length nb \<and> i < 8")
    case True
    then have "discriminator_loop i nb ph ! j
                 = discriminator_loop (i + 1) nb (ph[i := nb ! i]) ! j"
      by (subst discriminator_loop.simps) simp
    also have "\<dots> = (if i + 1 \<le> j \<and> j < length nb then nb ! j else ph[i := nb ! i] ! j)"
      using "1.IH" [OF True] "1.prems" by simp
    also have "\<dots> = (if i \<le> j \<and> j < length nb then nb ! j else ph ! j)"
      using True "1.prems" by (cases "i = j") auto
    finally show ?thesis .
  next
    case False
    then have "discriminator_loop i nb ph = ph"
      by (subst discriminator_loop.simps) auto
    with False "1.prems" show ?thesis by auto
  qed
qed

text \<open>
  For every name, the discriminator is the first eight bytes of the name, padded with
  zero bytes when the name is shorter.
\<close>

lemma deriveInstructionDiscriminator_eq:
  "deriveInstructionDiscriminator ixName = take 8 (utf8_bytes ixName @ replicate 8 0)"
proof (rule nth_equalityI)
  show "length (deriveInstructionDiscriminator ixName)
          = length (take 8 (utf8_bytes ixName @ replicate 8 0))"
    by (simp add: deriveInstructionDiscriminator_def discriminator_loop_length)
next
  fix j assume "j < length (deriveInstructionDiscriminator ixName)"
  then have "j < 8"
    by (simp add: deriveInstructionDiscriminator_def discriminator_loop_length)
  then show "deriveInstructionDiscriminator ixName ! j
               = take 8 (utf8_bytes ixName @ replicate 8 0) ! j"
    by (simp add: deriveInstructionDiscriminator_def discriminator_loop_nth nth_append)
qed

lemma find_ix_None:
  "(find_ix ixs d = None)
     = (\<forall>ix\<in>set ixs. deriveInstructionDiscriminator (idl_name ix) \<noteq> d)"
  by (induction ixs) auto

section \<open>The fallback blocks probe the list of networks\<close>

lemma fallback_block_cases:
  obtains (hit) t n' where
      "fallback_block env sig options u (None, url, n) = (Some t, u, n')"
      "probe_networks env url sig options (u # us) n = (Some (t, u), n')"
  | (miss) n' where
      "fallback_block env sig options u (None, url, n) = (None, url, n')"
      "probe_networks env url sig options (u # us) n
         = probe_networks env url sig options us n'"
proof (cases "u = url")
  case True
  then show ?thesis
    using miss [of n] by (simp add: fallback_block_def)
next
  case False
  obtain r n' where r: "getTransaction env u sig (commitment_or_default options) n = (r, n')"
    by (cases "getTransaction env u sig (commitment_or_default options) n")
  show ?thesis
  proof (cases r)
    case (Inl err)
    with r False show ?thesis
      using miss [of n'] by (simp add: fallback_block_def try_network_def)
  next
    case (Inr found)
    show ?thesis
    proof (cases found)
      case None
      with r Inr False show ?thesis
        using miss [of n'] by (simp add: fallback_block_def try_network_def)
    next
      case (Some t)
      with r Inr False show ?thesis
        using hit [of t n'] by (simp add: fallback_block_def try_network_def)
    qed
  qed
qed

lemma network_fallback_probe:
  "network_fallback env sig options (None, url, n0) =
     search_of url (probe_networks env url sig options well_known_networks n0)"
proof (cases rule: fallback_block_cases
         [of env sig options mainnetUrl url n0 "[devnetUrl, testnetUrl]"])
  case (hit t n')
  then show ?thesis
    by (simp add: network_fallback_def well_known_networks_def not_found_def search_of_def)
next
  case m1: (miss n1)
  show ?thesis
  proof (cases rule: fallback_block_cases [of env sig options devnetUrl url n1 "[testnetUrl]"])
    case (hit t n')
    with m1 show ?thesis
      by (simp add: network_fallback_def well_known_networks_def not_found_def search_of_def)
  next
    case m2: (miss n2)
    show ?thesis
    proof (cases rule: fallback_block_cases [of env sig options testnetUrl url n2 "[]"])
      case (hit t n')
      with m1 m2 show ?thesis
        by (simp add: network_fallback_def well_known_networks_def not_found_def search_of_def)
    next
      case (miss n3)
      with m1 m2 show ?thesis
        by (simp add: network_fallback_def well_known_networks_def not_found_def search_of_def)
    qed
  qed
qed

lemma locate_fallback:
  assumes "getTransaction env url sig (commitment_or_default options) n = (Inr None, n0)"
    and "\<not> skipNetworkFallback options"
  shows "locate env url sig options n =
           Inr (search_of url (probe_networks env url sig options well_known_networks n0))"
  using assms by (simp add: locate_def network_fallback_probe)

section \<open>What the assembly attaches to an instruction\<close>

lemma debug_instruction_Inr:
  assumes "debug_instruction env idls keys pre g ix index = Inr d"
  shows "logs d = bucket g index" and "instructionIndex d = index"
    and "account_diffs keys pre (ix_accounts ix) = Inr (accountDiffs d)"
proof -
  from assms obtain pid where pid: "js_index keys (programIdIndex ix) = Some pid"
    by (cases "js_index keys (programIdIndex ix)") (simp_all add: debug_instruction_def)
  from assms pid obtain ds where ds: "account_diffs keys pre (ix_accounts ix) = Inr ds"
    by (cases "account_diffs keys pre (ix_accounts ix)")
       (simp_all add: debug_instruction_def Let_def)
  define dec where
    "dec = (case idls pid of None \<Rightarrow> None | Some i \<Rightarrow> decodeAnchorInstruction ix i keys)"
  from assms pid ds have d:
    "d = \<lparr>programId = pid, programName = getProgramName env pid, instructionIndex = index,
          logs = bucket g index, accountDiffs = ds,
          instructionName = map_option dec_name dec,
          anchorInstruction = map_option dec_ix dec,
          anchorArgs = map_option dec_args dec\<rparr>"
    by (simp add: debug_instruction_def Let_def bucket_def dec_def)
  show "logs d = bucket g index" by (simp add: d)
  show "instructionIndex d = index" by (simp add: d)
  show "account_diffs keys pre (ix_accounts ix) = Inr (accountDiffs d)" by (simp add: d ds)
qed

lemma debug_instructions_Cons:
  assumes "debug_instructions env idls keys pre g index (ix # ixs) = Inr ds"
  obtains d ds' where "debug_instruction env idls keys pre g ix index = Inr d"
    "debug_instructions env idls keys pre g (index + 1) ixs = Inr ds'" "ds = d # ds'"
proof -
  from assms obtain d where
    d: "debug_instruction env idls keys pre g ix index = Inr d"
    by (cases "debug_instruction env idls keys pre g ix index") simp_all
  from assms d obtain ds' where
    ds': "debug_instructions env idls keys pre g (index + 1) ixs = Inr ds'"
    by (cases "debug_instructions env idls keys pre g (index + 1) ixs") simp_all
  from assms d ds' have "ds = d # ds'" by simp
  with d ds' show ?thesis using that by blast
qed

lemma debug_instructions_logs:
  assumes "debug_instructions env idls keys pre g index ixs = Inr ds"
  shows "map logs ds = map (bucket g) [index..<index + length ixs]"
  using assms
proof (induction ixs arbitrary: index ds)
  case Nil
  then show ?case by simp
next
  case (Cons ix ixs)
  from Cons.prems obtain d ds' where
    d: "debug_instruction env idls keys pre g ix index = Inr d"
    and ds': "debug_instructions env idls keys pre g (index + 1) ixs = Inr ds'"
    and eq: "ds = d # ds'"
    by (rule debug_instructions_Cons)
  from Cons.IH [OF ds']
  have "map logs ds' = map (bucket g) [index + 1..<index + 1 + length ixs]" .
  moreover have "[index..<index + length (ix # ixs)]
                   = index # [index + 1..<index + 1 + length ixs]"
    by (subst upt_rec) simp
  ultimately show ?case
    using debug_instruction_Inr(1) [OF d] eq by simp
qed

lemma debug_instructions_diffs:
  assumes "debug_instructions env idls keys pre g index ixs = Inr ds" "di \<in> set ds"
  shows "\<exists>idxs. account_diffs keys pre idxs = Inr (accountDiffs di)"
  using assms
proof (induction ixs arbitrary: index ds)
  case Nil
  then show ?case by simp
next
  case (Cons ix ixs)
  from Cons.prems(1) obtain d ds' where
    d: "debug_instruction env idls keys pre g ix index = Inr d"
    and ds': "debug_instructions env idls keys pre g (index + 1) ixs = Inr ds'"
    and eq: "ds = d # ds'"
    by (rule debug_instructions_Cons)
  from eq Cons.prems(2) have "di = d \<or> di \<in> set ds'" by simp
  then show ?case
  proof
    assume "di = d"
    with debug_instruction_Inr(3) [OF d] show ?thesis by blast
  next
    assume "di \<in> set ds'"
    with Cons.IH [OF ds'] show ?thesis .
  qed
qed

lemma account_diffs_Cons:
  assumes "account_diffs keys pre (i # idxs) = Inr ds"
  obtains acc ds' where "js_index keys i = Some acc" "account_diffs keys pre idxs = Inr ds'"
    "ds = (case pre acc of None \<Rightarrow> ds' | Some b \<Rightarrow> make_diff acc b b # ds')"
proof -
  from assms obtain acc where acc: "js_index keys i = Some acc"
    by (cases "js_index keys i") simp_all
  from assms acc obtain ds' where ds': "account_diffs keys pre idxs = Inr ds'"
    by (cases "account_diffs keys pre idxs") (simp_all add: Let_def)
  from assms acc ds'
  have "ds = (case pre acc of None \<Rightarrow> ds' | Some b \<Rightarrow> make_diff acc b b # ds')"
    by (cases "pre acc") (simp_all add: Let_def)
  with acc ds' show ?thesis using that by blast
qed

lemma make_diff_same:
  "before (make_diff acc b b) = Some b" "after (make_diff acc b b) = Some b"
  "diff_pubkey (make_diff acc b b) = acc"
  "changes (make_diff acc b b) = \<lparr>data_changed = Some False, balance = None\<rparr>"
  by (simp_all add: make_diff_def)

text \<open>
  Every diff the account loop emits is for an account with a captured pre state, carries
  that state on both sides, and reports no change.
\<close>

lemma account_diffs_props:
  assumes "account_diffs keys pre idxs = Inr ds" "d \<in> set ds"
  shows "before d = pre (diff_pubkey d) \<and> before d \<noteq> None \<and> after d = before d
         \<and> changes d = \<lparr>data_changed = Some False, balance = None\<rparr>"
  using assms
proof (induction idxs arbitrary: ds)
  case Nil
  then show ?case by simp
next
  case (Cons i idxs)
  from Cons.prems(1) obtain acc ds' where
    acc: "js_index keys i = Some acc" and ds': "account_diffs keys pre idxs = Inr ds'"
    and eq: "ds = (case pre acc of None \<Rightarrow> ds' | Some b \<Rightarrow> make_diff acc b b # ds')"
    by (rule account_diffs_Cons)
  show ?case
  proof (cases "pre acc")
    case None
    with eq Cons.prems(2) have "d \<in> set ds'" by simp
    with Cons.IH [OF ds'] show ?thesis .
  next
    case (Some b)
    with eq Cons.prems(2) have "d = make_diff acc b b \<or> d \<in> set ds'" by simp
    then show ?thesis
    proof
      assume "d = make_diff acc b b"
      with Some show ?thesis by (simp add: make_diff_same)
    next
      assume "d \<in> set ds'"
      with Cons.IH [OF ds'] show ?thesis .
    qed
  qed
qed

section \<open>The shape of an assembled trace\<close>

lemma assemble_Inr_cases:
  assumes "assemble env idls url sig t pre r = Inr dt"
  obtains (legacy) m g where "tx_message t = Legacy m"
      "parseTransactionLogs (logs_or_empty r) = Inr g"
      "debug_instructions env idls (accountKeys m) pre g 0 (msg_instructions m)
         = Inr (instructions dt)"
  | (versioned) keys where "tx_message t = Versioned keys"
      "instructions dt = [versioned_placeholder (logs_or_empty r)]"
proof -
  from assms obtain g where g: "parseTransactionLogs (logs_or_empty r) = Inr g"
    by (cases "parseTransactionLogs (logs_or_empty r)") (simp_all add: assemble_def Let_def)
  show ?thesis
  proof (cases "tx_message t")
    case (Legacy m)
    with assms g obtain ds where
      ds: "debug_instructions env idls (accountKeys m) pre g 0 (msg_instructions m) = Inr ds"
      by (cases "debug_instructions env idls (accountKeys m) pre g 0 (msg_instructions m)")
         (simp_all add: assemble_def Let_def)
    with assms g Legacy have "instructions dt = ds"
      by (auto simp: assemble_def Let_def)
    with Legacy g ds show ?thesis using legacy by simp
  next
    case (Versioned keys)
    with assms g have "instructions dt = [versioned_placeholder (logs_or_empty r)]"
      by (auto simp: assemble_def Let_def)
    with Versioned show ?thesis using versioned by simp
  qed
qed



lemma assemble_header:
  assumes "assemble env idls url sig t pre r = Inr dt"
  shows "signature dt = Some sig \<and> network dt = Some (getNetworkName url) \<and>
         slot dt = Some (tx_slot t)"
proof -
  from assms obtain g where g: "parseTransactionLogs (logs_or_empty r) = Inr g"
    by (cases "parseTransactionLogs (logs_or_empty r)") (simp_all add: assemble_def Let_def)
  show ?thesis
  proof (cases "tx_message t")
    case (Legacy m)
    with assms g obtain ds where
      ds: "debug_instructions env idls (accountKeys m) pre g 0 (msg_instructions m) = Inr ds"
      by (cases "debug_instructions env idls (accountKeys m) pre g 0 (msg_instructions m)")
         (simp_all add: assemble_def Let_def)
    with assms g Legacy show ?thesis
      by (auto simp: assemble_def Let_def)
  next
    case (Versioned keys)
    with assms g show ?thesis
      by (auto simp: assemble_def Let_def)
  qed
qed


lemma trace_located_Inr:
  assumes "trace_located env idls url sig options t n = Inr dt"
  obtains pre r where "assemble env idls url sig t pre r = Inr dt"
proof -
  obtain pre n2 where c: "capture_accounts env url (message_accountKeys (tx_message t)) Map.empty n = (pre, n2)"
    by (cases "capture_accounts env url (message_accountKeys (tx_message t)) Map.empty n")
  obtain x n3 where s: "simulateFromSignature env url sig options n2 = (x, n3)"
    by (cases "simulateFromSignature env url sig options n2")
  from assms c s obtain r where "x = Inr r"
    by (cases x) (simp_all add: trace_located_def)
  with assms c s have "assemble env idls url sig t pre r = Inr dt"
    by (simp add: trace_located_def)
  then show ?thesis using that by blast
qed

lemma trace_located_header:
  assumes "trace_located env idls url sig options t n = Inr dt"
  shows "signature dt = Some sig \<and> network dt = Some (getNetworkName url) \<and> slot dt = Some (tx_slot t)"
proof -
  from assms obtain pre r where "assemble env idls url sig t pre r = Inr dt"
    by (rule trace_located_Inr)
  from assemble_header [OF this] show ?thesis .
qed

lemma debugSignature_located:
  assumes "locate env (rpcUrl sim) sig options n = Inr (Some t, u, n1)"
  shows "debugSignature env sim sig options n =
           (case trace_located env (anchorIdlMap sim) u sig options t n1 of
              Inl err \<Rightarrow> failure sig err
            | Inr dt \<Rightarrow> dt, sim\<lparr>rpcUrl := u\<rparr>)"
proof (cases "trace_located env (anchorIdlMap sim) u sig options t n1")
  case (Inl err)
  with assms show ?thesis
    by (simp add: debugSignature_def debugSignature_try_def Let_def)
next
  case (Inr dt)
  with assms show ?thesis
    by (simp add: debugSignature_def debugSignature_try_def Let_def)
qed

lemma debugSignature_not_located:
  assumes "locate env (rpcUrl sim) sig options n = Inr (None, u, n1)"
  shows "debugSignature env sim sig options n =
           (failure sig (js_Error (''Transaction '' @ sig @ '' not found on any network'')),
            sim\<lparr>rpcUrl := u\<rparr>)"
  using assms by (simp add: debugSignature_def debugSignature_try_def Let_def)

lemma debugSignature_locate_throws:
  assumes "locate env (rpcUrl sim) sig options n = Inl err"
  shows "debugSignature env sim sig options n = (failure sig err, sim)"
  using assms by (simp add: debugSignature_def debugSignature_try_def)

lemma locate_throws:
  assumes "getTransaction env url sig (commitment_or_default options) n = (Inl err, n0)"
  shows "locate env url sig options n = Inl err"
  using assms by (simp add: locate_def)

lemma locate_skip:
  assumes "getTransaction env url sig (commitment_or_default options) n = (Inr None, n0)"
    and "skipNetworkFallback options"
  shows "locate env url sig options n = Inr (None, url, n0)"
  using assms by (simp add: locate_def)

lemma trace_located_simulate_throws:
  assumes "capture_accounts env u (message_accountKeys (tx_message t)) Map.empty n1 = (pre, n2)"
    and "simulateFromSignature env u sig options n2 = (Inl err, n3)"
  shows "trace_located env idls u sig options t n1 = Inl err"
  using assms by (simp add: trace_located_def)

section \<open>Properties of the log parser\<close>

text \<open>
  C2. The grouper is to put every line from the first depth-1 invoke line on into exactly
  one bucket. On the stream \<open>dropped_line_logs\<close> the first line opens bucket 1, and
  the second line, which follows it, is in no bucket: the only bucket holds the first and
  the third line.
\<close>

theorem parseTransactionLogs_drops_line:
  "depth1_invoke (dropped_line_logs ! 0) \<and>
   (case parseTransactionLogs dropped_line_logs of
      Inl err \<Rightarrow> False
    | Inr g \<Rightarrow> g 0 = None \<and> g 1 = Some [''Program P invoke [1]'', ''Program P success''] \<and>
               g 2 = None \<and> g 3 = None)"
  by code_simp




section \<open>Properties of the instruction decoder\<close>

text \<open>
  C3. The discriminator is to be a one-way hash of a namespacing string and the name, cut
  to eight bytes. The code returns the first eight bytes of the name itself: for
  \<open>transfer\<close> the discriminator is the name, and every name that starts with
  \<open>transfer\<close> gets the same one.
\<close>

theorem deriveInstructionDiscriminator_copies_name:
  "deriveInstructionDiscriminator ''transfer'' = utf8_bytes ''transfer'' \<and>
   deriveInstructionDiscriminator ''transferChecked'' = deriveInstructionDiscriminator ''transfer''"
  by code_simp

text \<open>
  C5. With a matching discriminator, argument bytes shorter than the schema's layout, or
  longer, are to be rejected. On \<open>truncated_instruction\<close> (three argument bytes where
  \<open>amount: u64\<close> needs eight) and on \<open>overlong_instruction\<close> (ten bytes) the decoder
  returns a result, whose arguments are the bytes in hexadecimal.
\<close>

theorem decodeAnchorInstruction_accepts_malformed:
  "decodeAnchorInstruction truncated_instruction transfer_idl [''Payer'', ''Fresh'', ''Prog1'']
     = Some \<lparr>dec_name = ''transfer'', dec_ix = transfer_ix, dec_args = RawData ''010203''\<rparr> \<and>
   decodeAnchorInstruction overlong_instruction transfer_idl [''Payer'', ''Fresh'', ''Prog1'']
     = Some \<lparr>dec_name = ''transfer'', dec_ix = transfer_ix,
             dec_args = RawData ''e803000000000000ffff''\<rparr>"
  by code_simp

text \<open>
  On every payload whose discriminator matches, the arguments are the empty object or
  the remaining bytes in hexadecimal, whatever their number.
\<close>

lemma decodeAnchorInstruction_raw_args:
  "ix_data instr = BufferData data \<Longrightarrow>
   findInstructionByDiscriminator i (take DISCRIMINATOR_SIZE data) = Some ix \<Longrightarrow>
   decodeAnchorInstruction instr i keys =
     Some \<lparr>dec_name = idl_name ix, dec_ix = ix,
           dec_args = (case idl_args ix of
                         None \<Rightarrow> NoArgs
                       | Some as \<Rightarrow>
                           if as = [] then NoArgs
                           else RawData (toHex (drop DISCRIMINATOR_SIZE data)))\<rparr>"
  by (simp add: decodeAnchorInstruction_def decodeAnchorArgs_def Let_def split: option.splits)

text \<open>
  C6. For every payload (a \<^verbatim>\<open>Buffer\<close>) whose discriminator prefix is the discriminator
  of no instruction of the program's IDL, \<^verbatim>\<open>decodeAnchorInstruction\<close> returns \<^verbatim>\<open>null\<close>.
  The function returns on every input: its body is inside a \<^verbatim>\<open>try\<close> whose handler
  returns \<^verbatim>\<open>null\<close>.
\<close>

theorem decodeAnchorInstruction_unregistered:
  "ix_data instr = BufferData data \<Longrightarrow> unregistered i data \<Longrightarrow>
   decodeAnchorInstruction instr i keys = None"
  by (auto simp: unregistered_def decodeAnchorInstruction_def findInstructionByDiscriminator_def
                 Let_def find_ix_None split: option.splits)

theorem decodeAnchorInstruction_unregistered_witness:
  "ix_data unknown_instruction = BufferData (utf8_bytes ''withdraw'' @ [7]) \<and>
   unregistered transfer_idl (utf8_bytes ''withdraw'' @ [7]) \<and>
   decodeAnchorInstruction unknown_instruction transfer_idl [''Payer'', ''Fresh'', ''Prog1''] = None"
proof -
  have d: "ix_data unknown_instruction = BufferData (utf8_bytes ''withdraw'' @ [7])"
    by (simp add: unknown_instruction_def)
  have h: "unregistered transfer_idl (utf8_bytes ''withdraw'' @ [7])" by code_simp
  from decodeAnchorInstruction_unregistered [OF d h] d h
  show ?thesis by simp
qed

text \<open>A payload held as text is never decoded.\<close>

lemma decodeAnchorInstruction_text:
  "ix_data instr = Base58Text s \<Longrightarrow> decodeAnchorInstruction instr i keys = None"
  by (simp add: decodeAnchorInstruction_def)

section \<open>Properties of the simulation orchestrator\<close>

lemma example_assemble:
  "assemble example_env [''Prog1'' \<mapsto> transfer_idl] devnetUrl ''sig1'' example_transaction
     example_pre example_result = Inr example_trace"
  by code_simp

lemma example_trace_located:
  "trace_located example_env (anchorIdlMap example_simulator) devnetUrl ''sig1'' example_options
     example_transaction () = Inr example_trace"
  by code_simp

text \<open>
  C1. When the signature lookup on the caller's network returns nothing and the fallback
  is not disabled, the orchestrator probes mainnet, then devnet, then testnet, skipping
  a network equal to the caller's, and stops at the first that yields the transaction.
  If that network is \<open>u\<close>, the simulator's network is \<open>u\<close> afterwards, and the result
  is the trace computed from the transaction found there with the accounts and the
  dry run of \<open>u\<close> (or the failure record if that computation throws); an assembled trace
  names the network and carries the slot of that transaction.
\<close>

theorem debugSignature_network_fallback:
  assumes "getTransaction env (rpcUrl sim) sig (commitment_or_default options) n = (Inr None, n0)"
    and "\<not> skipNetworkFallback options"
    and "probe_networks env (rpcUrl sim) sig options [mainnetUrl, devnetUrl, testnetUrl] n0
           = (Some (t, u), n1)"
  shows "debugSignature env sim sig options n =
           (case trace_located env (anchorIdlMap sim) u sig options t n1 of
              Inl err \<Rightarrow> failure sig err
            | Inr dt \<Rightarrow> dt, sim\<lparr>rpcUrl := u\<rparr>) \<and>
         (\<forall>dt. trace_located env (anchorIdlMap sim) u sig options t n1 = Inr dt \<longrightarrow>
            signature dt = Some sig \<and> network dt = Some (getNetworkName u) \<and>
            slot dt = Some (tx_slot t))"
proof (intro conjI allI impI)
  from locate_fallback [OF assms(1,2)] assms(3)
  have "locate env (rpcUrl sim) sig options n = Inr (Some t, u, n1)"
    by (simp add: well_known_networks_def search_of_def)
  then show "debugSignature env sim sig options n =
           (case trace_located env (anchorIdlMap sim) u sig options t n1 of
              Inl err \<Rightarrow> failure sig err
            | Inr dt \<Rightarrow> dt, sim\<lparr>rpcUrl := u\<rparr>)"
    by (rule debugSignature_located)
next
  fix dt assume dt: "trace_located env (anchorIdlMap sim) u sig options t n1 = Inr dt"
  from trace_located_header [OF dt]
  show "signature dt = Some sig" "network dt = Some (getNetworkName u)" "slot dt = Some (tx_slot t)"
    by simp_all
qed

theorem debugSignature_network_fallback_witness:
  "getTransaction example_env (rpcUrl example_simulator) ''sig1''
     (commitment_or_default example_options) () = (Inr None, ()) \<and>
   \<not> skipNetworkFallback example_options \<and>
   probe_networks example_env (rpcUrl example_simulator) ''sig1'' example_options
     [mainnetUrl, devnetUrl, testnetUrl] () = (Some (example_transaction, devnetUrl), ()) \<and>
   debugSignature example_env example_simulator ''sig1'' example_options ()
     = (example_trace, example_simulator\<lparr>rpcUrl := devnetUrl\<rparr>) \<and>
   network example_trace = Some ''devnet'' \<and> slot example_trace = Some 42"
proof -
  have h1: "getTransaction example_env (rpcUrl example_simulator) ''sig1''
              (commitment_or_default example_options) () = (Inr None, ())"
    by (simp add: example_env_def example_simulator_def devnetUrl_def)
  have h2: "\<not> skipNetworkFallback example_options"
    by (simp add: example_options_def)
  have h3: "probe_networks example_env (rpcUrl example_simulator) ''sig1'' example_options
              [mainnetUrl, devnetUrl, testnetUrl] () = (Some (example_transaction, devnetUrl), ())"
    by (simp add: example_env_def example_simulator_def mainnetUrl_def devnetUrl_def)
  from debugSignature_network_fallback [OF h1 h2 h3] example_trace_located
  have "debugSignature example_env example_simulator ''sig1'' example_options ()
          = (example_trace, example_simulator\<lparr>rpcUrl := devnetUrl\<rparr>)"
    by simp
  moreover have "network example_trace = Some ''devnet''" "slot example_trace = Some 42"
    by (simp_all add: example_trace_def)
  ultimately show ?thesis using h1 h2 h3 by simp
qed

text \<open>
  C8. A debug-by-signature request that cannot locate or simulate the transaction
  returns one top-level result with \<open>success = False\<close>, the formatted error as its
  description and no instructions: when the first lookup throws, when the transaction is
  absent on every probed network (the description then says so), when the simulation
  throws, and for any value thrown inside the body. The function returns a result on
  every input; nothing thrown inside reaches the caller.
\<close>

theorem debugSignature_reports_failure:
  "(getTransaction env (rpcUrl sim) sig (commitment_or_default options) n = (Inl err, n0) \<longrightarrow>
      fst (debugSignature env sim sig options n) =
        \<lparr>signature = Some sig, success = False, error = Some (formatError err),
         instructions = [], timestamp = None, slot = None, network = None\<rparr>) \<and>
   (getTransaction env (rpcUrl sim) sig (commitment_or_default options) n = (Inr None, n0) \<and>
    (skipNetworkFallback options \<or>
     probe_networks env (rpcUrl sim) sig options [mainnetUrl, devnetUrl, testnetUrl] n0
       = (None, n1)) \<longrightarrow>
      fst (debugSignature env sim sig options n) =
        \<lparr>signature = Some sig, success = False,
         error = Some (''Transaction '' @ sig @ '' not found on any network''),
         instructions = [], timestamp = None, slot = None, network = None\<rparr>) \<and>
   (locate env (rpcUrl sim) sig options n = Inr (Some t, u, n1) \<and>
    capture_accounts env u (message_accountKeys (tx_message t)) Map.empty n1 = (pre, n2) \<and>
    simulateFromSignature env u sig options n2 = (Inl err, n3) \<longrightarrow>
      fst (debugSignature env sim sig options n) =
        \<lparr>signature = Some sig, success = False, error = Some (formatError err),
         instructions = [], timestamp = None, slot = None, network = None\<rparr>) \<and>
   (debugSignature_try env sim sig options n = (Inl err, sim') \<longrightarrow>
      debugSignature env sim sig options n =
        (\<lparr>signature = Some sig, success = False, error = Some (formatError err),
          instructions = [], timestamp = None, slot = None, network = None\<rparr>, sim'))"
proof (intro conjI impI)
  assume "getTransaction env (rpcUrl sim) sig (commitment_or_default options) n = (Inl err, n0)"
  from debugSignature_locate_throws [OF locate_throws [OF this]]
  show "fst (debugSignature env sim sig options n) =
        \<lparr>signature = Some sig, success = False, error = Some (formatError err),
         instructions = [], timestamp = None, slot = None, network = None\<rparr>"
    by (simp add: failure_def)
next
  assume a: "getTransaction env (rpcUrl sim) sig (commitment_or_default options) n = (Inr None, n0) \<and>
    (skipNetworkFallback options \<or>
     probe_networks env (rpcUrl sim) sig options [mainnetUrl, devnetUrl, testnetUrl] n0
       = (None, n1))"
  have "\<exists>u n'. locate env (rpcUrl sim) sig options n = Inr (None, u, n')"
  proof (cases "skipNetworkFallback options")
    case True
    from locate_skip [OF conjunct1 [OF a] True] show ?thesis by (intro exI)
  next
    case False
    with a have "probe_networks env (rpcUrl sim) sig options well_known_networks n0 = (None, n1)"
      by (simp add: well_known_networks_def)
    with locate_fallback [OF conjunct1 [OF a] False]
    have "locate env (rpcUrl sim) sig options n = Inr (None, rpcUrl sim, n1)"
      by (simp add: search_of_def)
    then show ?thesis by (intro exI)
  qed
  then obtain u n' where "locate env (rpcUrl sim) sig options n = Inr (None, u, n')"
    by (elim exE)
  from debugSignature_not_located [OF this]
  show "fst (debugSignature env sim sig options n) =
        \<lparr>signature = Some sig, success = False,
         error = Some (''Transaction '' @ sig @ '' not found on any network''),
         instructions = [], timestamp = None, slot = None, network = None\<rparr>"
    by (simp add: failure_def js_Error_def)
next
  assume a: "locate env (rpcUrl sim) sig options n = Inr (Some t, u, n1) \<and>
    capture_accounts env u (message_accountKeys (tx_message t)) Map.empty n1 = (pre, n2) \<and>
    simulateFromSignature env u sig options n2 = (Inl err, n3)"
  then have "capture_accounts env u (message_accountKeys (tx_message t)) Map.empty n1 = (pre, n2)"
    and "simulateFromSignature env u sig options n2 = (Inl err, n3)"
    by simp_all
  then have "trace_located env (anchorIdlMap sim) u sig options t n1 = Inl err"
    by (rule trace_located_simulate_throws)
  with debugSignature_located [OF conjunct1 [OF a]]
  show "fst (debugSignature env sim sig options n) =
        \<lparr>signature = Some sig, success = False, error = Some (formatError err),
         instructions = [], timestamp = None, slot = None, network = None\<rparr>"
    by (simp add: failure_def)
next
  assume "debugSignature_try env sim sig options n = (Inl err, sim')"
  then show "debugSignature env sim sig options n =
        (\<lparr>signature = Some sig, success = False, error = Some (formatError err),
          instructions = [], timestamp = None, slot = None, network = None\<rparr>, sim')"
    by (simp add: debugSignature_def failure_def)
qed

theorem debugSignature_reports_failure_witness:
  "getTransaction unreachable_env (rpcUrl example_simulator) ''sig1''
     (commitment_or_default example_options) () = (Inl (js_Error ''fetch failed''), ()) \<and>
   fst (debugSignature unreachable_env example_simulator ''sig1'' example_options ()) =
     \<lparr>signature = Some ''sig1'', success = False, error = Some ''fetch failed'',
      instructions = [], timestamp = None, slot = None, network = None\<rparr> \<and>
   getTransaction example_env (rpcUrl example_simulator) ''sig2''
     (commitment_or_default example_options) () = (Inr None, ()) \<and>
   probe_networks example_env (rpcUrl example_simulator) ''sig2'' example_options
     [mainnetUrl, devnetUrl, testnetUrl] () = (None, ()) \<and>
   fst (debugSignature example_env example_simulator ''sig2'' example_options ()) =
     \<lparr>signature = Some ''sig2'', success = False,
      error = Some ''Transaction sig2 not found on any network'',
      instructions = [], timestamp = None, slot = None, network = None\<rparr> \<and>
   locate dry_run_down_env (rpcUrl example_simulator) ''sig1'' example_options ()
     = Inr (Some example_transaction, devnetUrl, ()) \<and>
   simulateFromSignature dry_run_down_env devnetUrl ''sig1'' example_options ()
     = (Inl (js_Error ''fetch failed''), ()) \<and>
   fst (debugSignature dry_run_down_env example_simulator ''sig1'' example_options ()) =
     \<lparr>signature = Some ''sig1'', success = False, error = Some ''fetch failed'',
      instructions = [], timestamp = None, slot = None, network = None\<rparr>"
proof -
  have a: "getTransaction unreachable_env (rpcUrl example_simulator) ''sig1''
             (commitment_or_default example_options) () = (Inl (js_Error ''fetch failed''), ())"
    by (simp add: unreachable_env_def)
  have b1: "getTransaction example_env (rpcUrl example_simulator) ''sig2''
              (commitment_or_default example_options) () = (Inr None, ())"
    by (simp add: example_env_def)
  have b2: "probe_networks example_env (rpcUrl example_simulator) ''sig2'' example_options
              [mainnetUrl, devnetUrl, testnetUrl] () = (None, ())"
    by (simp add: example_env_def)
  have c1: "locate dry_run_down_env (rpcUrl example_simulator) ''sig1'' example_options ()
              = Inr (Some example_transaction, devnetUrl, ())"
    by (simp add: locate_def network_fallback_def fallback_block_def try_network_def
          not_found_def dry_run_down_env_def example_env_def example_simulator_def
          example_options_def mainnetUrl_def devnetUrl_def)
  obtain pre n2 where c2:
    "capture_accounts dry_run_down_env devnetUrl
       (message_accountKeys (tx_message example_transaction)) Map.empty () = (pre, n2)"
    by (cases "capture_accounts dry_run_down_env devnetUrl
                 (message_accountKeys (tx_message example_transaction)) Map.empty ()")
  have c3: "simulateFromSignature dry_run_down_env devnetUrl ''sig1'' example_options n2
              = (Inl (js_Error ''fetch failed''), ())"
    by (simp add: simulateFromSignature_def dry_run_down_env_def example_env_def)
  have f: "formatError (js_Error ''fetch failed'') = ''fetch failed''"
    by (simp add: js_Error_def)
  from debugSignature_reports_failure
         [where env = unreachable_env and sim = example_simulator and sig = "''sig1''"
            and options = example_options and n = "()" and err = "js_Error ''fetch failed''"
            and ?n0.0 = "()"] a f
  have r1: "fst (debugSignature unreachable_env example_simulator ''sig1'' example_options ()) =
     \<lparr>signature = Some ''sig1'', success = False, error = Some ''fetch failed'',
      instructions = [], timestamp = None, slot = None, network = None\<rparr>"
    by simp
  from debugSignature_reports_failure
         [where env = example_env and sim = example_simulator and sig = "''sig2''"
            and options = example_options and n = "()" and ?n0.0 = "()" and ?n1.0 = "()"] b1 b2
  have r2: "fst (debugSignature example_env example_simulator ''sig2'' example_options ()) =
     \<lparr>signature = Some ''sig2'', success = False,
      error = Some ''Transaction sig2 not found on any network'',
      instructions = [], timestamp = None, slot = None, network = None\<rparr>"
    by simp
  from debugSignature_reports_failure
         [where env = dry_run_down_env and sim = example_simulator and sig = "''sig1''"
            and options = example_options and n = "()" and err = "js_Error ''fetch failed''"
            and t = example_transaction and u = devnetUrl and ?n1.0 = "()" and pre = pre
            and ?n2.0 = n2 and ?n3.0 = "()"] c1 c2 c3 f
  have r3: "fst (debugSignature dry_run_down_env example_simulator ''sig1'' example_options ()) =
     \<lparr>signature = Some ''sig1'', success = False, error = Some ''fetch failed'',
      instructions = [], timestamp = None, slot = None, network = None\<rparr>"
    by simp
  from c3 have c3': "simulateFromSignature dry_run_down_env devnetUrl ''sig1'' example_options ()
              = (Inl (js_Error ''fetch failed''), ())"
    by simp
  show ?thesis
    by (intro conjI) (fact a r1 b1 b2 r2 c1 c3' r3)+
qed

text \<open>
  C4. The after snapshot of a diff is to be a capture made after the simulation. In the
  trace of \<open>sig1\<close> the diff of the payer's account carries the snapshot captured before
  the simulation on both sides and reports no change; the code assigns
  \<^verbatim>\<open>postState = preState\<close> and reads nothing of the accounts from the dry run.
\<close>

theorem debugSignature_after_is_before:
  "map accountDiffs (instructions (fst (debugSignature example_env example_simulator ''sig1''
                                        example_options ())))
     = [[payer_diff], [payer_diff]] \<and>
   after payer_diff = before payer_diff \<and>
   changes payer_diff = \<lparr>data_changed = Some False, balance = None\<rparr>"
  by code_simp

text \<open>The same for every input: each diff of a trace has equal sides and no change.\<close>

lemma every_diff_reports_no_change:
  assumes "assemble env idls url sig t pre r = Inr dt"
    and "di \<in> set (instructions dt)"
    and "d \<in> set (accountDiffs di)"
  shows "after d = before d \<and> changes d = \<lparr>data_changed = Some False, balance = None\<rparr>"
  using assms(1)
proof (cases rule: assemble_Inr_cases)
  case (legacy m g)
  from debug_instructions_diffs [OF legacy(3) assms(2)] obtain idxs where
    "account_diffs (accountKeys m) pre idxs = Inr (accountDiffs di)" by blast
  from account_diffs_props [OF this assms(3)]
  have "after d = before d" "changes d = \<lparr>data_changed = Some False, balance = None\<rparr>"
    by blast+
  then show ?thesis by (intro conjI)
next
  case (versioned keys)
  from assms(2) versioned(2) have "di = versioned_placeholder (logs_or_empty r)" by simp
  with assms(3) have False by (simp add: versioned_placeholder_def)
  then show ?thesis ..
qed

text \<open>
  C7. An account that is present before and absent after, or absent before and present
  after, is to get a diff with the absent side absent and the balance change carrying
  the absent side. In the trace of \<open>sig3\<close>, whose instruction closes \<open>X\<close> into \<open>Y\<close>,
  the diff of \<open>X\<close> carries the snapshot with 500 lamports on both sides and no balance
  change, since the after side is the before snapshot again; \<open>Y\<close>, which did not exist
  when the accounts were captured, gets no diff.
\<close>

theorem debugSignature_no_absence_transition:
  "ix_accounts (msg_instructions closing_message ! 0) = [1, 2] \<and>
   accountKeys closing_message ! 1 = ''X'' \<and>
   accountKeys closing_message ! 2 = ''Y'' \<and>
   fst (getAccountInfo closing_env devnetUrl ''X'' ()) = Inr (Some x_info) \<and>
   lamports x_info = 500 \<and>
   fst (getAccountInfo closing_env devnetUrl ''Y'' ()) = Inr None \<and>
   map accountDiffs (instructions (fst (debugSignature closing_env devnet_simulator ''sig3''
                                        example_options ())))
     = [[x_diff]] \<and>
   before x_diff = Some x_state \<and>
   after x_diff = Some x_state \<and>
   balance (changes x_diff) = None"
  by code_simp

text \<open>
  On every input, an account of an instruction whose snapshot was captured gets a diff
  with that snapshot on both sides.
\<close>

lemma diff_emitted_when_captured:
  assumes "account_diffs keys pre idxs = Inr ds"
    and "i \<in> set idxs"
    and "js_index keys i = Some acc"
    and "pre acc = Some b"
  shows "make_diff acc b b \<in> set ds"
  using assms(1,2)
proof (induction idxs arbitrary: ds)
  case Nil
  then show ?case by simp
next
  case (Cons j idxs)
  from Cons.prems(1) obtain acc' ds' where
    acc': "js_index keys j = Some acc'" and ds': "account_diffs keys pre idxs = Inr ds'"
    and eq: "ds = (case pre acc' of None \<Rightarrow> ds' | Some b' \<Rightarrow> make_diff acc' b' b' # ds')"
    by (rule account_diffs_Cons)
  from Cons.prems(2) have "i = j \<or> i \<in> set idxs" by simp
  then show ?case
  proof
    assume "i = j"
    with acc' assms(3) have "acc' = acc" by simp
    with eq assms(4) show ?thesis by simp
  next
    assume "i \<in> set idxs"
    from Cons.IH [OF ds' this] have "make_diff acc b b \<in> set ds'" .
    with eq show ?thesis by (cases "pre acc'") simp_all
  qed
qed

text \<open>
  C10. In the trace of a legacy transaction with \<open>K \<ge> 1\<close> instructions, the logs of
  the instruction at position \<open>i\<close> are the bucket read at key \<open>i\<close> of the grouped logs,
  whose keys start at one. So the first instruction carries no log line, the
  instructions at positions \<open>1\<close> to \<open>K - 1\<close> carry the buckets keyed \<open>1\<close> to
  \<open>K - 1\<close>, and the bucket keyed \<open>K\<close> is attached to no instruction.
\<close>

theorem assemble_logs_shifted:
  assumes "assemble env idls url sig t pre r = Inr dt"
    and "tx_message t = Legacy m"
    and "msg_instructions m \<noteq> []"
  shows "\<exists>g. parseTransactionLogs (logs_or_empty r) = Inr g \<and>
             map logs (instructions dt) = map (bucket g) [0..<length (msg_instructions m)] \<and>
             map logs (instructions dt) = [] # map (bucket g) [1..<length (msg_instructions m)]"
  using assms(1)
proof (cases rule: assemble_Inr_cases)
  case (legacy m' g)
  with assms(2) have m': "m' = m" by simp
  from debug_instructions_logs [OF legacy(3)] m'
  have l: "map logs (instructions dt) = map (bucket g) [0..<length (msg_instructions m)]" by simp
  from assms(3) have k: "[0..<length (msg_instructions m)] = 0 # [1..<length (msg_instructions m)]"
    by (subst upt_rec) simp
  have b0: "bucket g 0 = []"
    using parseTransactionLogs_key0 [OF legacy(2)] by (simp add: bucket_def)
  have "map (bucket g) [0..<length (msg_instructions m)]
          = bucket g 0 # map (bucket g) [1..<length (msg_instructions m)]"
    by (simp only: k list.map)
  with l b0 have l1: "map logs (instructions dt) = [] # map (bucket g) [1..<length (msg_instructions m)]"
    by (simp only:)
  show ?thesis
  proof (intro exI conjI)
    show "parseTransactionLogs (logs_or_empty r) = Inr g" by (fact legacy(2))
    show "map logs (instructions dt) = map (bucket g) [0..<length (msg_instructions m)]"
      by (fact l)
    show "map logs (instructions dt) = [] # map (bucket g) [1..<length (msg_instructions m)]"
      by (fact l1)
  qed
next
  case (versioned keys)
  from assms(2) versioned(1) have False by simp
  then show ?thesis ..
qed

text \<open>
  For \<open>sig1\<close> the dry run logs two top-level invocations. The first instruction gets
  no line, the second gets the lines of the first invocation, and the bucket keyed \<open>2\<close>
  is in the grouped logs and in no instruction.
\<close>

theorem assemble_logs_shifted_witness:
  "assemble example_env [''Prog1'' \<mapsto> transfer_idl] devnetUrl ''sig1'' example_transaction
     example_pre example_result = Inr example_trace \<and>
   tx_message example_transaction = Legacy example_message \<and>
   msg_instructions example_message \<noteq> [] \<and>
   (\<exists>g. parseTransactionLogs (logs_or_empty example_result) = Inr g \<and>
        map logs (instructions example_trace)
          = map (bucket g) [0..<length (msg_instructions example_message)] \<and>
        map logs (instructions example_trace)
          = [] # map (bucket g) [1..<length (msg_instructions example_message)]) \<and>
   map logs (instructions example_trace)
     = [[], [''Program Prog1 invoke [1]'', ''Program log: Instruction: Transfer'',
             ''Program Prog1 success'']] \<and>
   (case parseTransactionLogs example_logs of
      Inl err \<Rightarrow> False
    | Inr g \<Rightarrow> g 2 = Some [''Program Prog1 invoke [1]'', ''Program Prog1 success''])"
proof -
  have h2: "tx_message example_transaction = Legacy example_message"
    by (simp add: example_transaction_def)
  have h3: "msg_instructions example_message \<noteq> []"
    by (simp add: example_message_def)
  have c1: "map logs (instructions example_trace)
     = [[], [''Program Prog1 invoke [1]'', ''Program log: Instruction: Transfer'',
             ''Program Prog1 success'']]"
    by (simp add: example_trace_def)
  have c2: "case parseTransactionLogs example_logs of
      Inl err \<Rightarrow> False
    | Inr g \<Rightarrow> g 2 = Some [''Program Prog1 invoke [1]'', ''Program Prog1 success'']"
    by code_simp
  from assemble_logs_shifted [OF example_assemble h2 h3]
  have "\<exists>g. parseTransactionLogs (logs_or_empty example_result) = Inr g \<and>
        map logs (instructions example_trace)
          = map (bucket g) [0..<length (msg_instructions example_message)] \<and>
        map logs (instructions example_trace)
          = [] # map (bucket g) [1..<length (msg_instructions example_message)]" .
  with example_assemble h2 h3 c1 c2 show ?thesis by (intro conjI)
qed

end
